theory Spec2Isabelle
  imports Complex_Main
begin

section \<open>Strings and numbers as the TypeScript code uses them\<close>

text \<open>
  A JavaScript string is modelled as a \<open>string\<close>, one \<open>char\<close> per code unit.
  \<open>str_lt\<close> is the relational operator \<open><\<close> on two strings: code units are compared
  from the left and a proper prefix is smaller. \<open>str_ge\<close> is \<open>>=\<close>.
\<close>

fun str_lt :: "string \<Rightarrow> string \<Rightarrow> bool" where
  "str_lt [] [] = False"
| "str_lt [] (y # ys) = True"
| "str_lt (x # xs) [] = False"
| "str_lt (x # xs) (y # ys) = ((of_char x :: nat) < of_char y \<or> (x = y \<and> str_lt xs ys))"

definition str_ge :: "string \<Rightarrow> string \<Rightarrow> bool" where
  "str_ge a b = (\<not> str_lt a b)"

text \<open>
  \<open>Number\<close> on the strings that occur as parts of a time of day: a string of decimal digits
  is its value, the empty string is 0, and every other string is \<open>None\<close>, which stands for
  \<open>NaN\<close>. (Game times are stored under the schema's pattern
  \<open>^([0-1]?[0-9]|2[0-3]):[0-5][0-9]$\<close> and the current time is the first five characters of
  \<open>Date.toTimeString()\<close>, so signs, blanks, hexadecimal and exponent forms do not occur.)
\<close>

definition isDigit :: "char \<Rightarrow> bool" where
  "isDigit c = (48 \<le> (of_char c :: nat) \<and> (of_char c :: nat) \<le> 57)"

definition digitVal :: "char \<Rightarrow> int" where
  "digitVal c = int (of_char c) - 48"

definition Number :: "string \<Rightarrow> int option" where
  "Number s = (if list_all isDigit s then Some (foldl (\<lambda>n c. 10 * n + digitVal c) 0 s) else None)"

text \<open>\<open>time.split(":")\<close>\<close>

fun split_colon :: "string \<Rightarrow> string list" where
  "split_colon [] = [[]]"
| "split_colon (c # cs) =
     (if c = CHR '':'' then [] # split_colon cs
      else (case split_colon cs of p # ps \<Rightarrow> (c # p) # ps | [] \<Rightarrow> [[c]]))"

text \<open>
  \<open>timeToMinutes\<close> (games.ts, lines 34-37 and 225-228): the first two parts of the split
  are converted and combined; a missing second part is \<open>undefined\<close> and makes the sum NaN.
\<close>

definition timeToMinutes :: "string \<Rightarrow> int option" where
  "timeToMinutes time =
     (case map Number (split_colon time) of
        hours # minutes # _ \<Rightarrow>
          (case (hours, minutes) of (Some h, Some m) \<Rightarrow> Some (h * 60 + m) | _ \<Rightarrow> None)
      | _ \<Rightarrow> None)"

text \<open>Comparison of two JavaScript numbers; every comparison with NaN is false.\<close>

definition num_lt :: "int option \<Rightarrow> int option \<Rightarrow> bool" where
  "num_lt a b = (case (a, b) of (Some x, Some y) \<Rightarrow> x < y | _ \<Rightarrow> False)"

definition num_gt :: "int option \<Rightarrow> int option \<Rightarrow> bool" where
  "num_gt a b = (case (a, b) of (Some x, Some y) \<Rightarrow> x > y | _ \<Rightarrow> False)"

definition num_ge :: "int option \<Rightarrow> int option \<Rightarrow> bool" where
  "num_ge a b = (case (a, b) of (Some x, Some y) \<Rightarrow> x \<ge> y | _ \<Rightarrow> False)"


section \<open>Arithmetic on JavaScript numbers\<close>

text \<open>
  Amounts of money are JavaScript numbers, that is, IEEE 754 binary64 values. A finite
  number is modelled as the real it denotes, and every arithmetic operation of the code
  as the exact operation followed by \<open>fl\<close>, rounding to the nearest binary64 value with
  ties going to the even significand. \<open>expo x\<close> is the exponent \<open>e\<close> with
  \<open>2 ^ e \<le> \<bar>x\<bar> < 2 ^ (e + 1)\<close>; a normal number has 53 significant bits, and below
  \<open>2 ^ - 1022\<close> the spacing stays \<open>2 ^ - 1074\<close>. Infinities and NaN are not modelled:
  \<open>fl\<close> does not overflow, so a result beyond the largest binary64 value (about 1.8e308)
  is outside the model.
\<close>

fun bitLength :: "nat \<Rightarrow> nat" where
  "bitLength n = (if n = 0 then 0 else Suc (bitLength (n div 2)))"

declare bitLength.simps [simp del]

definition expo :: "real \<Rightarrow> int" where
  "expo x =
     (if 1 \<le> \<bar>x\<bar> then int (bitLength (nat \<lfloor>\<bar>x\<bar>\<rfloor>)) - 1
      else - int (bitLength (nat \<lceil>1 / \<bar>x\<bar>\<rceil> - 1)))"

definition round_even :: "real \<Rightarrow> int" where
  "round_even x =
     (let f = \<lfloor>x\<rfloor>; r = x - of_int f
      in if r < 1 / 2 then f else if 1 / 2 < r then f + 1 else if even f then f else f + 1)"

definition fl :: "real \<Rightarrow> real" where
  "fl x =
     (if x = 0 then 0
      else let e = max (expo x) (- 1022); q = 2 powi (e - 52)
           in of_int (round_even (x / q)) * q)"

text \<open>The operators \<open>+\<close>, \<open>-\<close>, \<open>*\<close> and \<open>/\<close> (the only divisor in the code is 100).\<close>

definition js_add :: "real \<Rightarrow> real \<Rightarrow> real" where
  "js_add a b = fl (a + b)"

definition js_sub :: "real \<Rightarrow> real \<Rightarrow> real" where
  "js_sub a b = fl (a - b)"

definition js_mul :: "real \<Rightarrow> real \<Rightarrow> real" where
  "js_mul a b = fl (a * b)"

definition js_div :: "real \<Rightarrow> real \<Rightarrow> real" where
  "js_div a b = fl (a / b)"


section \<open>The game document (models/Game.ts)\<close>

datatype status = Waiting | Open | Closed | ResultDeclared

datatype game_type = Jodi | Haruf | Crossing

record game =
  name :: string
  gtype :: game_type
  isActive :: bool
  startTime :: string
  endTime :: string
  resultTime :: string
  minBet :: real
  maxBet :: real
  commission :: real
  jodiPayout :: real
  harufPayout :: real
  crossingPayout :: real
  declaredResult :: "string option"
  currentStatus :: status
  forcedStatus :: "status option"


section \<open>Deriving the status of a game from the clock\<close>

text \<open>
  The time-based computation of getAllGames (games.ts, lines 39-86); placeBet repeats it
  word for word (lines 230-276). The three flags are computed first, then the status is
  chosen in the order open, closed, result declared.
\<close>

definition timeStatus :: "int option \<Rightarrow> int option \<Rightarrow> int option \<Rightarrow> int option \<Rightarrow> status" where
  "timeStatus currentMinutes startMinutes endMinutes resultMinutes =
     (let (isGameOpen, isGameClosed, isResultTime) =
        (if num_gt endMinutes startMinutes then
           (num_ge currentMinutes startMinutes \<and> num_lt currentMinutes endMinutes,
            num_ge currentMinutes endMinutes \<and> num_lt currentMinutes resultMinutes,
            num_ge currentMinutes resultMinutes)
         else if num_gt resultMinutes endMinutes then
           (num_ge currentMinutes startMinutes \<or> num_lt currentMinutes endMinutes,
            num_ge currentMinutes endMinutes \<and> num_lt currentMinutes resultMinutes,
            num_ge currentMinutes resultMinutes \<and> num_lt currentMinutes startMinutes)
         else
           (num_ge currentMinutes startMinutes \<or> num_lt currentMinutes endMinutes,
            (num_ge currentMinutes endMinutes \<and> num_lt currentMinutes (Some 1440)) \<or>
            (num_ge currentMinutes (Some 0) \<and> num_lt currentMinutes resultMinutes),
            num_ge currentMinutes resultMinutes \<and> num_lt currentMinutes startMinutes))
      in if isGameOpen then Open
         else if isGameClosed then Closed
         else if isResultTime then ResultDeclared
         else Waiting)"

text \<open>
  The status getAllGames attaches to a game (lines 20-91) and the one placeBet checks
  (lines 213-296); \<open>currentTime\<close> is \<open>now.toTimeString().slice(0, 5)\<close>.
\<close>

definition getAllGames_status :: "string \<Rightarrow> game \<Rightarrow> status" where
  "getAllGames_status currentTime g =
     (case forcedStatus g of
        Some s \<Rightarrow> if isActive g then s
                  else Waiting
      | None \<Rightarrow>
          if isActive g
          then timeStatus (timeToMinutes currentTime) (timeToMinutes (startTime g))
                 (timeToMinutes (endTime g)) (timeToMinutes (resultTime g))
          else Waiting)"

definition placeBet_status :: "string \<Rightarrow> game \<Rightarrow> status" where
  "placeBet_status currentTime g =
     (if forcedStatus g \<noteq> None \<and> isActive g then the (forcedStatus g)
      else if isActive g
      then timeStatus (timeToMinutes currentTime) (timeToMinutes (startTime g))
             (timeToMinutes (endTime g)) (timeToMinutes (resultTime g))
      else Waiting)"

text \<open>
  The status getGameById computes (games.ts, lines 131-150): the HH:mm strings are compared
  as strings, and there is no branch for a window that crosses midnight.
\<close>

definition getGameById_status :: "string \<Rightarrow> game \<Rightarrow> status" where
  "getGameById_status currentTime g =
     (if forcedStatus g \<noteq> None \<and> isActive g then the (forcedStatus g)
      else if isActive g then
        (if str_ge currentTime (startTime g) \<and> str_lt currentTime (endTime g) then Open
         else if str_ge currentTime (endTime g) \<and> str_lt currentTime (resultTime g) then Closed
         else if str_ge currentTime (resultTime g) then ResultDeclared
         else Waiting)
      else Waiting)"

text \<open>A zero-padded time of day \<open>HH:mm\<close>, 00:00 to 23:59.\<close>

definition hhmm :: "string \<Rightarrow> bool" where
  "hhmm s =
     (case s of
        [a, b, k, c, d] \<Rightarrow>
          isDigit a \<and> isDigit b \<and> k = CHR '':'' \<and> isDigit c \<and> isDigit d \<and>
          10 * digitVal a + digitVal b < 24 \<and> 10 * digitVal c + digitVal d < 60
      | _ \<Rightarrow> False)"


section \<open>String helpers used by the win checks\<close>

text \<open>\<open>s.charAt(i)\<close>: the one-character string at index \<open>i\<close>, or the empty string.\<close>

definition charAt :: "string \<Rightarrow> int \<Rightarrow> string" where
  "charAt s i = (if 0 \<le> i \<and> i < int (length s) then [s ! nat i] else [])"

fun startsWith :: "string \<Rightarrow> string \<Rightarrow> bool" where
  "startsWith s [] = True"
| "startsWith [] (n # ns) = False"
| "startsWith (c # cs) (n # ns) = (c = n \<and> startsWith cs ns)"

text \<open>\<open>s.includes(n)\<close>: \<open>n\<close> occurs in \<open>s\<close> as a substring.\<close>

fun str_includes :: "string \<Rightarrow> string \<Rightarrow> bool" where
  "str_includes [] n = (n = [])"
| "str_includes (c # cs) n = (startsWith (c # cs) n \<or> str_includes cs n)"

text \<open>
  \<open>toLowerCase\<close> on the ASCII letters, which is what it does to the bet-type words and to
  the letters A and B of a legacy haruf bet number.
\<close>

definition toLowerCase :: "string \<Rightarrow> string" where
  "toLowerCase s =
     map (\<lambda>c. if 65 \<le> (of_char c :: nat) \<and> (of_char c :: nat) \<le> 90
              then char_of ((of_char c :: nat) + 32) else c) s"

text \<open>\<open>trim\<close>, on the ASCII white space (tab, line feed, vertical tab, form feed, return, blank).\<close>

definition isSpace :: "char \<Rightarrow> bool" where
  "isSpace c = ((of_char c :: nat) \<in> {9, 10, 11, 12, 13, 32})"

definition trim :: "string \<Rightarrow> string" where
  "trim s = rev (dropWhile isSpace (rev (dropWhile isSpace s)))"

text \<open>
  An optional string of a request body or document: \<open>None\<close> is \<open>undefined\<close>. \<open>truthy\<close> is
  the test JavaScript applies in \<open>if (x)\<close>, \<open>or_else a b\<close> is \<open>a || b\<close>, and
  \<open>or_empty a\<close> is \<open>a || ''\<close>.
\<close>

definition truthy :: "string option \<Rightarrow> bool" where
  "truthy x = (case x of Some s \<Rightarrow> s \<noteq> [] | None \<Rightarrow> False)"

definition or_else :: "string option \<Rightarrow> string option \<Rightarrow> string option" where
  "or_else a b = (if truthy a then a else b)"

definition or_empty :: "string option \<Rightarrow> string" where
  "or_empty a = (case a of Some s \<Rightarrow> s | None \<Rightarrow> [])"


section \<open>Bets, wallets and the other documents\<close>

text \<open>
  The Bet, Wallet, Transaction, GameResult and User models are not among the sources; the
  records below hold the fields that games.ts and results.ts read and write. \<open>betData\<close>
  is the free-form object of a bet; an absent \<open>betData\<close> and one without the two haruf
  fields behave alike in every use (\<open>bet.betData?.harufPosition\<close>, \<open>bet.betData || {}\<close>).
  \<open>top_harufPosition\<close> and \<open>crossingCombinations\<close> are the top-level fields
  \<open>bet.harufPosition\<close> and \<open>bet.crossingCombinations\<close> (the \<open>number\<close> of each combination)
  that the first version of checkBetWinning reads.
\<close>

record betData =
  harufPosition :: "string option"
  harufDigit :: "string option"

datatype bet_status = Pending | Won | Lost | Cancelled | Refunded

record bet =
  bet_id :: nat
  userId :: nat
  gameId :: nat
  gameType :: game_type
  betType :: string
  betNumber :: string
  betAmount :: real
  potentialWinning :: real
  betData :: betData
  status :: bet_status
  deductionTransactionId :: nat
  isWinner :: "bool option"
  winningAmount :: "real option"
  actualPayout :: "real option"
  winningTransactionId :: "nat option"
  isWinning :: "bool option"
  resultDeclared :: bool
  bet_declaredResult :: "string option"
  top_harufPosition :: "string option"
  crossingCombinations :: "string list option"

record wallet =
  depositBalance :: real
  winningBalance :: real
  totalWinnings :: real
  totalBets :: real

record user =
  u_winningBalance :: real
  u_totalWinnings :: real

record txn =
  txn_id :: nat
  txn_userId :: nat
  txn_type :: string
  txn_amount :: real
  txn_gameId :: nat

record dist =
  d_totalBets :: nat
  d_totalAmount :: real
  d_winningBets :: nat
  d_winningAmount :: real

datatype result_status = ResultPending | Declared

record gameResult =
  gr_gameId :: nat
  gr_resultDate :: int
  gr_jodiResult :: "string option"
  gr_harufResult :: "string option"
  gr_crossingResult :: "string option"
  gr_totalBets :: nat
  totalBetAmount :: real
  totalWinningAmount :: real
  platformCommission :: real
  netProfit :: real
  gr_betDistribution :: "string \<Rightarrow> dist option"
  gr_status :: result_status
  gr_isManual :: bool
  declaredBy :: "nat option"

text \<open>
  The collections. Documents with a unique key are maps from the key; bets, ledger
  transactions and game results are lists in insertion order. \<open>nextId\<close> supplies the
  identifiers of created documents.
\<close>

record db =
  games :: "nat \<rightharpoonup> game"
  gameResults :: "gameResult list"
  bets :: "bet list"
  wallets :: "nat \<rightharpoonup> wallet"
  users :: "nat \<rightharpoonup> user"
  transactions :: "txn list"
  nextId :: nat

text \<open>\<open>bet.save()\<close>: the stored bet with this identifier is replaced by the document.\<close>

definition saveBet :: "bet \<Rightarrow> db \<Rightarrow> db" where
  "saveBet b d = d\<lparr>bets := map (\<lambda>x. if bet_id x = bet_id b then b else x) (bets d)\<rparr>"

datatype error =
    MissingFields
  | AmountNotPositive
  | GameNotFound
  | GameNotFoundOrInactive
  | BettingNotOpen status
  | AmountOutOfRange
  | InsufficientBalance
  | InvalidBetType
  | NoResultProvided
  | ResultAlreadyDeclared
  | InvalidGameState
  | ServerError


section \<open>Win checks\<close>

subsection \<open>results.ts, second version (lines 994-1076)\<close>

record declaredResults =
  jodi :: string
  haruf :: string
  crossing :: string
  fallback :: string

text \<open>The two nested loops over the positions of the declared crossing result.\<close>

definition crossingOutcomes :: "string \<Rightarrow> string list" where
  "crossingOutcomes digits =
     concat (map (\<lambda>i. concat (map (\<lambda>j. if i \<noteq> j then [[digits ! i, digits ! j]] else [])
                                   [0..<length digits]))
                 [0..<length digits])"

text \<open>
  \<open>betNumber.match(/^([AB])(\d)$/i)\<close>: the two captured characters of a legacy haruf bet
  number such as A1 or b4.
\<close>

definition legacyMatch :: "string \<Rightarrow> (char \<times> char) option" where
  "legacyMatch s =
     (case s of
        [p, d] \<Rightarrow> if p \<in> set ''ABab'' \<and> isDigit d then Some (p, d) else None
      | _ \<Rightarrow> None)"

definition checkBetWinning :: "bet \<Rightarrow> declaredResults \<Rightarrow> bool" where
  "checkBetWinning b declaredResults =
     (let betNumber' = betNumber b;
          betType' = toLowerCase (betType b);
          betData' = betData b
      in
      if betType' = [] then False
      else if betType' = ''jodi'' then betNumber' = jodi declaredResults
      else if betType' = ''haruf'' then
        (if length (haruf declaredResults) < 1 then False
         else
           let firstDigit = [hd (haruf declaredResults)];
               lastDigit = [last (haruf declaredResults)];
               harufDigit0 = or_empty (harufDigit betData');
               harufPosition0 = or_empty (harufPosition betData');
               (harufPosition1, harufDigit1) =
                 (if harufDigit0 = [] \<or> harufPosition0 = [] then
                    (case legacyMatch betNumber' of
                       Some (p, d) \<Rightarrow>
                         (if toLowerCase [p] = ''a'' then ''first'' else ''last'', [d])
                     | None \<Rightarrow> (harufPosition0, harufDigit0))
                  else (harufPosition0, harufDigit0))
           in
           if harufPosition1 \<noteq> [] \<and> harufDigit1 \<noteq> [] then
             (if harufPosition1 = ''first'' \<or> harufPosition1 = ''andhar'' then harufDigit1 = firstDigit
              else if harufPosition1 = ''last'' \<or> harufPosition1 = ''bahar'' then harufDigit1 = lastDigit
              else False)
           else False)
      else if betType' = ''crossing'' then
        betNumber' \<in> set (crossingOutcomes (crossing declaredResults))
      else False)"

subsection \<open>results.ts, first version (lines 420-451)\<close>

definition checkBetWinning_single :: "bet \<Rightarrow> string \<Rightarrow> bool" where
  "checkBetWinning_single b declaredResult' =
     (if betType b = ''jodi'' then betNumber b = declaredResult'
      else if betType b = ''haruf'' then
        (if top_harufPosition b = Some ''first'' \<or> top_harufPosition b = Some ''start''
         then charAt declaredResult' 0 = betNumber b
         else if top_harufPosition b = Some ''last'' \<or> top_harufPosition b = Some ''end''
         then charAt declaredResult' (int (length declaredResult') - 1) = betNumber b
         else str_includes declaredResult' (betNumber b))
      else if betType b = ''crossing'' then
        (case crossingCombinations b of
           Some combos \<Rightarrow> list_ex (\<lambda>number. number = declaredResult') combos
         | None \<Rightarrow> betNumber b = declaredResult')
      else False)"

subsection \<open>games.ts, declareResult (lines 853-916)\<close>

record declareBody =
  jodiResult :: "string option"
  harufResult :: "string option"
  crossingResult :: "string option"
  body_declaredResult :: "string option"

definition unifiedWinningNumber :: "game \<Rightarrow> declareBody \<Rightarrow> string option" where
  "unifiedWinningNumber g body =
     (if gtype g = Jodi then jodiResult body
      else if gtype g = Haruf then harufResult body
      else crossingResult body)"

text \<open>The \<open>switch (bet.betType)\<close> that sets \<open>isWinner\<close>; it starts as \<open>false\<close>.\<close>

definition betIsWinner :: "string option \<Rightarrow> bet \<Rightarrow> bool" where
  "betIsWinner unified b =
     (if betType b = ''jodi'' then Some (betNumber b) = unified
      else if betType b = ''haruf'' then
        (if harufPosition (betData b) = Some ''first'' then
           (case unified of Some w \<Rightarrow> betNumber b = charAt w 0 | None \<Rightarrow> False)
         else if harufPosition (betData b) = Some ''last'' then
           (case unified of Some w \<Rightarrow> betNumber b = charAt w 1 | None \<Rightarrow> False)
         else
           (case unified of Some w \<Rightarrow> str_includes w (betNumber b) | None \<Rightarrow> False))
      else if betType b = ''crossing'' then
        (let isWinner0 = (Some (betNumber b) = unified) in
         if \<not> isWinner0 \<and> truthy unified \<and> betNumber b \<noteq> [] then
           (let winDigits = the unified; betDigits = betNumber b in
            if length winDigits \<ge> 2 \<and> length betDigits = 2
            then list_all (\<lambda>digit. digit \<in> set winDigits) betDigits
            else isWinner0)
         else isWinner0)
      else False)"


section \<open>Settlement in games.ts: declareResult (lines 773-1038)\<close>

text \<open>
  The accumulators of the loop: \<open>totalWinningAmount\<close> and \<open>betDistribution\<close>, an object
  with the keys jodi, haruf and crossing.
\<close>

record settleAcc =
  acc_totalWinningAmount :: real
  acc_betDistribution :: "string \<Rightarrow> dist option"

definition dist0 :: dist where
  "dist0 = \<lparr>d_totalBets = 0, d_totalAmount = 0, d_winningBets = 0, d_winningAmount = 0\<rparr>"

definition betDistribution0 :: "string \<Rightarrow> dist option" where
  "betDistribution0 = [''jodi'' \<mapsto> dist0, ''haruf'' \<mapsto> dist0, ''crossing'' \<mapsto> dist0]"

text \<open>
  One iteration of \<open>for (const bet of bets)\<close> (lines 840-963). The first statement reads
  \<open>betDistribution[bet.betType]\<close>; for a bet type other than the three keys that is
  \<open>undefined\<close> and the increment throws, which is the result \<open>None\<close>: nothing has been
  written in this iteration. (placeBet stores no other bet type.) The winner's wallet is credited and a win transaction is created only if a
  wallet document exists; the bet is saved in either case.
\<close>

definition processBet ::
    "nat \<Rightarrow> string option \<Rightarrow> bet \<Rightarrow> settleAcc \<times> db \<Rightarrow> (settleAcc \<times> db) option" where
  "processBet gid unified b s =
     (let (acc, d) = s in
      case acc_betDistribution acc (betType b) of
        None \<Rightarrow> None
      | Some e \<Rightarrow>
          let dist1 = (acc_betDistribution acc)
                (betType b \<mapsto> e\<lparr>d_totalBets := d_totalBets e + 1,
                                 d_totalAmount := js_add (d_totalAmount e) (betAmount b)\<rparr>)
          in
          if betIsWinner unified b then
            (let b1 = b\<lparr>isWinner := Some True,
                        winningAmount := Some (potentialWinning b),
                        actualPayout := Some (potentialWinning b),
                        status := Won\<rparr>;
                 total1 = js_add (acc_totalWinningAmount acc) (potentialWinning b);
                 e1 = the (dist1 (betType b));
                 dist2 = dist1
                   (betType b \<mapsto> e1\<lparr>d_winningBets := d_winningBets e1 + 1,
                                     d_winningAmount := js_add (d_winningAmount e1) (potentialWinning b)\<rparr>);
                 acc1 = \<lparr>acc_totalWinningAmount = total1, acc_betDistribution = dist2\<rparr>
             in
             case wallets d (userId b) of
               Some w \<Rightarrow>
                 let d1 = d\<lparr>wallets := (wallets d)
                            (userId b \<mapsto>
                               w\<lparr>winningBalance := js_add (winningBalance w) (potentialWinning b),
                                 totalWinnings := js_add (totalWinnings w) (potentialWinning b)\<rparr>)\<rparr>;
                     t = \<lparr>txn_id = nextId d1, txn_userId = userId b, txn_type = ''win'',
                          txn_amount = potentialWinning b, txn_gameId = gid\<rparr>;
                     d2 = d1\<lparr>transactions := transactions d1 @ [t], nextId := Suc (nextId d1)\<rparr>;
                     b2 = b1\<lparr>winningTransactionId := Some (txn_id t)\<rparr>
                 in Some (acc1, saveBet b2 d2)
             | None \<Rightarrow> Some (acc1, saveBet b1 d))
          else
            Some (acc\<lparr>acc_betDistribution := dist1\<rparr>,
                  saveBet (b\<lparr>isWinner := Some False, status := Lost\<rparr>) d))"

text \<open>
  The loop. An exception leaves the loop and the handler; there is no transaction, so what
  earlier iterations wrote stays written: \<open>Inl\<close> carries the database as it is left behind.
\<close>

fun settleBets :: "nat \<Rightarrow> string option \<Rightarrow> bet list \<Rightarrow> settleAcc \<times> db \<Rightarrow> db + settleAcc \<times> db" where
  "settleBets gid unified [] s = Inr s"
| "settleBets gid unified (b # bs) s =
     (case processBet gid unified b s of
        None \<Rightarrow> Inl (snd s)
      | Some s' \<Rightarrow> settleBets gid unified bs s')"

text \<open>\<open>Bet.find({ gameId, status: "pending" })\<close> (lines 810-813).\<close>

definition pendingBets :: "nat \<Rightarrow> db \<Rightarrow> bet list" where
  "pendingBets gid d = filter (\<lambda>b. gameId b = gid \<and> status b = Pending) (bets d)"

text \<open>
  \<open>GameResult.findOne\<close> for the day that starts at \<open>today\<close> (milliseconds; the request's
  \<open>resultDate\<close> or the current date, set to midnight).
\<close>

definition sameDay :: "nat \<Rightarrow> int \<Rightarrow> gameResult \<Rightarrow> bool" where
  "sameDay gid today r =
     (gr_gameId r = gid \<and> today \<le> gr_resultDate r \<and> gr_resultDate r < today + 24 * 60 * 60 * 1000)"

fun replaceFirst :: "('a \<Rightarrow> bool) \<Rightarrow> 'a \<Rightarrow> 'a list \<Rightarrow> 'a list" where
  "replaceFirst P y [] = []"
| "replaceFirst P y (x # xs) = (if P x then y # xs else x # replaceFirst P y xs)"

record summary =
  s_gameResult :: gameResult
  winnersCount :: nat
  s_totalWinningAmount :: real
  s_netProfit :: real
  betsProcessed :: nat

text \<open>\<open>new GameResult({gameId, gameName, gameType, resultDate: today, drawTime})\<close> (lines 973-979).\<close>

definition newGameResult :: "nat \<Rightarrow> int \<Rightarrow> gameResult" where
  "newGameResult gid today =
     \<lparr>gr_gameId = gid, gr_resultDate = today,
      gr_jodiResult = None, gr_harufResult = None, gr_crossingResult = None,
      gr_totalBets = 0, totalBetAmount = 0, totalWinningAmount = 0,
      platformCommission = 0, netProfit = 0,
      gr_betDistribution = betDistribution0, gr_status = ResultPending,
      gr_isManual = False, declaredBy = None\<rparr>"

text \<open>Only the result field of the game's type is set (lines 981-988).\<close>

definition setResultField :: "game \<Rightarrow> declareBody \<Rightarrow> gameResult \<Rightarrow> gameResult" where
  "setResultField g body r =
     (if gtype g = Jodi \<and> truthy (jodiResult body) then r\<lparr>gr_jodiResult := jodiResult body\<rparr>
      else if gtype g = Haruf \<and> truthy (harufResult body) then r\<lparr>gr_harufResult := harufResult body\<rparr>
      else if gtype g = Crossing \<and> truthy (crossingResult body)
      then r\<lparr>gr_crossingResult := crossingResult body\<rparr>
      else r)"

text \<open>The statistics and the declaration fields (lines 989-999).\<close>

definition setStatistics ::
    "nat \<Rightarrow> real \<Rightarrow> real \<Rightarrow> real \<Rightarrow> real \<Rightarrow> (string \<Rightarrow> dist option) \<Rightarrow> nat option \<Rightarrow>
     gameResult \<Rightarrow> gameResult" where
  "setStatistics n totalBetAmount' totalWinningAmount' platformCommission' netProfit'
       betDistribution' adminUser r =
     r\<lparr>gr_totalBets := n,
       totalBetAmount := totalBetAmount',
       totalWinningAmount := totalWinningAmount',
       platformCommission := platformCommission',
       netProfit := netProfit',
       gr_betDistribution := betDistribution',
       gr_status := Declared,
       gr_isManual := True,
       declaredBy := adminUser\<rparr>"

definition declareResult ::
    "db \<Rightarrow> int \<Rightarrow> nat option \<Rightarrow> nat \<Rightarrow> declareBody \<Rightarrow> (error + summary) \<times> db" where
  "declareResult d today adminUser gid body =
     (case games d gid of
        None \<Rightarrow> (Inl GameNotFound, d)
      | Some g \<Rightarrow>
          let existingResult = find (sameDay gid today) (gameResults d) in
          if (case existingResult of Some r \<Rightarrow> gr_status r = Declared | None \<Rightarrow> False)
          then (Inl ResultAlreadyDeclared, d)
          else
            let bs = pendingBets gid d in
            case settleBets gid (unifiedWinningNumber g body) bs
                   (\<lparr>acc_totalWinningAmount = 0, acc_betDistribution = betDistribution0\<rparr>, d) of
              Inl d' \<Rightarrow> (Inl ServerError, d')
            | Inr (acc, d1) \<Rightarrow>
                let totalBetAmount' = foldl (\<lambda>sum b. js_add sum (betAmount b)) 0 bs;
                    platformCommission' = js_mul totalBetAmount' (js_div (commission g) 100);
                    netProfit' =
                      js_sub (js_sub totalBetAmount' (acc_totalWinningAmount acc)) platformCommission';
                    gameResult0 =
                      (case existingResult of
                         Some r \<Rightarrow> r
                       | None \<Rightarrow> newGameResult gid today);
                    gameResult' =
                      setStatistics (length bs) totalBetAmount' (acc_totalWinningAmount acc)
                        platformCommission' netProfit' (acc_betDistribution acc) adminUser
                        (setResultField g body gameResult0);
                    d2 = d1\<lparr>gameResults :=
                            (case existingResult of
                               Some r \<Rightarrow> replaceFirst (sameDay gid today) gameResult' (gameResults d1)
                             | None \<Rightarrow> gameResults d1 @ [gameResult'])\<rparr>;
                    d3 = d2\<lparr>games := (games d2)(gid \<mapsto> g\<lparr>currentStatus := ResultDeclared\<rparr>)\<rparr>;
                    winnersCount' =
                      d_winningBets (the (acc_betDistribution acc ''jodi'')) +
                      d_winningBets (the (acc_betDistribution acc ''haruf'')) +
                      d_winningBets (the (acc_betDistribution acc ''crossing''))
                in (Inr \<lparr>s_gameResult = gameResult', winnersCount = winnersCount',
                         s_totalWinningAmount = acc_totalWinningAmount acc,
                         s_netProfit = netProfit', betsProcessed = length bs\<rparr>, d3))"


section \<open>Settlement in results.ts, second version (lines 478-617 and 928-988)\<close>

record processed =
  p_totalBets :: nat
  winningBets :: nat
  losingBets :: nat
  totalWinAmount :: real

text \<open>\<open>Bet.findByIdAndUpdate(bet._id, {isWinning, resultDeclared: true, declaredResult})\<close>\<close>

definition updateBetResult :: "nat \<Rightarrow> bool \<Rightarrow> string \<Rightarrow> db \<Rightarrow> db" where
  "updateBetResult bid w r d =
     d\<lparr>bets := map (\<lambda>x. if bet_id x = bid
                         then x\<lparr>isWinning := Some w, resultDeclared := True,
                                bet_declaredResult := Some r\<rparr>
                         else x) (bets d)\<rparr>"

text \<open>\<open>User.findByIdAndUpdate(bet.userId, {$inc: {winningBalance, totalWinnings}})\<close>\<close>

definition creditUser :: "nat \<Rightarrow> real \<Rightarrow> db \<Rightarrow> db" where
  "creditUser uid amount d =
     (case users d uid of
        None \<Rightarrow> d
      | Some u \<Rightarrow> d\<lparr>users := (users d)
                      (uid \<mapsto> u\<lparr>u_winningBalance := js_add (u_winningBalance u) amount,
                                u_totalWinnings := js_add (u_totalWinnings u) amount\<rparr>)\<rparr>)"

text \<open>The loop of processBetsForResult (lines 944-972).\<close>

fun processBetsLoop :: "declaredResults \<Rightarrow> bet list \<Rightarrow> processed \<times> db \<Rightarrow> processed \<times> db" where
  "processBetsLoop r [] s = s"
| "processBetsLoop r (b # bs) (p, d) =
     (let isWinning' = checkBetWinning b r;
          d1 = updateBetResult (bet_id b) isWinning' (fallback r) d
      in if isWinning'
         then processBetsLoop r bs
                (p\<lparr>winningBets := winningBets p + 1,
                   totalWinAmount := js_add (totalWinAmount p) (potentialWinning b)\<rparr>,
                 creditUser (userId b) (potentialWinning b) d1)
         else processBetsLoop r bs (p\<lparr>losingBets := losingBets p + 1\<rparr>, d1))"

text \<open>\<open>Bet.find({ gameId })\<close>: every bet of the game, whatever its status.\<close>

definition processBetsForResult :: "nat \<Rightarrow> declaredResults \<Rightarrow> db \<Rightarrow> processed \<times> db" where
  "processBetsForResult gid r d =
     (let bs = filter (\<lambda>b. gameId b = gid) (bets d)
      in processBetsLoop r bs
           (\<lparr>p_totalBets = length bs, winningBets = 0, losingBets = 0, totalWinAmount = 0\<rparr>, d))"

text \<open>
  The route handler POST /declare/:gameId (lines 478-617). The game is loaded as a full
  document, so the two guards read the stored \<open>declaredResult\<close> and \<open>currentStatus\<close>.
\<close>

definition declare_route :: "db \<Rightarrow> nat \<Rightarrow> declareBody \<Rightarrow> (error + processed) \<times> db" where
  "declare_route d gid body =
     (let resultToUse =
            or_else (jodiResult body)
              (or_else (harufResult body) (or_else (crossingResult body) (body_declaredResult body)))
      in
      if \<not> truthy resultToUse then (Inl NoResultProvided, d)
      else
        case games d gid of
          None \<Rightarrow> (Inl GameNotFound, d)
        | Some g \<Rightarrow>
            if truthy (declaredResult g) then (Inl ResultAlreadyDeclared, d)
            else if currentStatus g \<noteq> Closed then (Inl InvalidGameState, d)
            else
              let resultValue =
                    (if gtype g = Jodi then or_else (jodiResult body) resultToUse
                     else if gtype g = Haruf then or_else (harufResult body) resultToUse
                     else or_else (crossingResult body) resultToUse)
              in
              if \<not> truthy resultValue then (Inl NoResultProvided, d)
              else
                let resultStr = trim (the resultValue);
                    d1 = d\<lparr>games := (games d)
                           (gid \<mapsto> g\<lparr>declaredResult := Some resultStr,
                                      currentStatus := ResultDeclared\<rparr>)\<rparr>;
                    (p, d2) = processBetsForResult gid
                                \<lparr>jodi = or_empty (jodiResult body),
                                 haruf = or_empty (harufResult body),
                                 crossing = or_empty (crossingResult body),
                                 fallback = trim (the resultToUse)\<rparr> d1
                in (Inr p, d2))"


section \<open>Settlement in results.ts, first version (lines 18-103 and 366-415)\<close>







section \<open>Placing a bet: placeBet (games.ts, lines 166-477)\<close>

record placeRequest =
  req_gameId :: "nat option"
  req_betType :: "string option"
  req_betNumber :: "string option"
  req_betAmount :: "real option"
  req_betData :: betData

record receipt =
  rc_betId :: nat
  rc_potentialWinning :: real
  rc_currentBalance :: real
  rc_transactionId :: nat

text \<open>
  \<open>session.withTransaction\<close>: the writes of a callback that throws are rolled back.
\<close>

definition withTransaction :: "(db \<Rightarrow> error + 'a \<times> db) \<Rightarrow> db \<Rightarrow> (error + 'a) \<times> db" where
  "withTransaction callback d =
     (case callback d of
        Inl e \<Rightarrow> (Inl e, d)
      | Inr (r, d') \<Rightarrow> (Inr r, d'))"

text \<open>
  The callback (lines 325-431). \<open>newWallet\<close> is the document \<open>Wallet.create([{ userId }])\<close>
  yields, that is, the defaults of the Wallet schema, which is not among the sources.
\<close>

definition placeBet_callback ::
    "wallet \<Rightarrow> nat \<Rightarrow> nat \<Rightarrow> game \<Rightarrow> string \<Rightarrow> string \<Rightarrow> real \<Rightarrow> betData \<Rightarrow> db \<Rightarrow> error + receipt \<times> db" where
  "placeBet_callback newWallet uid gid g betType' betNumber' betAmount' betData' d =
     (let d1 = (case wallets d uid of
                  None \<Rightarrow> d\<lparr>wallets := (wallets d)(uid \<mapsto> newWallet)\<rparr>
                | Some w \<Rightarrow> d);
          w = the (wallets d1 uid)
      in
      if depositBalance w < betAmount' then Inl InsufficientBalance
      else
        case (if betType' = ''jodi'' then Some (jodiPayout g)
              else if betType' = ''haruf'' then Some (harufPayout g)
              else if betType' = ''crossing'' then Some (crossingPayout g)
              else None) of
          None \<Rightarrow> Inl InvalidBetType
        | Some multiplier \<Rightarrow>
            let potentialWinning' = js_mul betAmount' multiplier;
                t = \<lparr>txn_id = nextId d1, txn_userId = uid, txn_type = ''bet'',
                     txn_amount = betAmount', txn_gameId = gid\<rparr>;
                d2 = d1\<lparr>transactions := transactions d1 @ [t], nextId := Suc (nextId d1)\<rparr>;
                b = \<lparr>bet_id = nextId d2, userId = uid, gameId = gid, gameType = gtype g,
                     betType = betType', betNumber = betNumber', betAmount = betAmount',
                     potentialWinning = potentialWinning', betData = betData',
                     status = Pending, deductionTransactionId = txn_id t,
                     isWinner = None, winningAmount = None, actualPayout = None,
                     winningTransactionId = None, isWinning = None, resultDeclared = False,
                     bet_declaredResult = None, top_harufPosition = None,
                     crossingCombinations = None\<rparr>;
                d3 = d2\<lparr>bets := bets d2 @ [b], nextId := Suc (nextId d2)\<rparr>;
                w' = w\<lparr>depositBalance := js_sub (depositBalance w) betAmount',
                       totalBets := js_add (totalBets w) betAmount'\<rparr>;
                d4 = d3\<lparr>wallets := (wallets d3)(uid \<mapsto> w')\<rparr>
            in Inr (\<lparr>rc_betId = bet_id b, rc_potentialWinning = potentialWinning',
                     rc_currentBalance = depositBalance w', rc_transactionId = txn_id t\<rparr>, d4))"

definition placeBet ::
    "wallet \<Rightarrow> db \<Rightarrow> string \<Rightarrow> nat \<Rightarrow> placeRequest \<Rightarrow> (error + receipt) \<times> db" where
  "placeBet newWallet d currentTime uid req =
     (if req_gameId req = None \<or> \<not> truthy (req_betType req) \<or> \<not> truthy (req_betNumber req) \<or>
         req_betAmount req = None \<or> req_betAmount req = Some 0
      then (Inl MissingFields, d)
      else
        let gid = the (req_gameId req);
            betType' = the (req_betType req);
            betNumber' = the (req_betNumber req);
            betAmount' = the (req_betAmount req)
        in
        if betAmount' \<le> 0 then (Inl AmountNotPositive, d)
        else
          case games d gid of
            None \<Rightarrow> (Inl GameNotFoundOrInactive, d)
          | Some g \<Rightarrow>
              if \<not> isActive g then (Inl GameNotFoundOrInactive, d)
              else
                let gameStatus = placeBet_status currentTime g in
                if gameStatus \<noteq> Open then (Inl (BettingNotOpen gameStatus), d)
                else if betAmount' < minBet g \<or> betAmount' > maxBet g then (Inl AmountOutOfRange, d)
                else
                  withTransaction
                    (placeBet_callback newWallet uid gid g betType' betNumber' betAmount'
                       (req_betData req)) d)"


section \<open>What a settled bet looks like\<close>

text \<open>
  A sum accumulated from the left, as \<open>reduce\<close> and the \<open>+=\<close> of a loop compute it. Every
  addition rounds, so the order of the summands is part of the value.
\<close>

definition js_sum :: "real list \<Rightarrow> real" where
  "js_sum xs = foldl js_add 0 xs"

text \<open>
  \<open>settledAs unified b b'\<close>: \<open>b'\<close> is the document \<open>b\<close> after one iteration of the loop of
  declareResult: the identifying fields, the stake and the frozen potential winning are
  those of \<open>b\<close>; a winner is marked won with \<open>winningAmount = potentialWinning\<close>, any other
  bet is marked lost.
\<close>

definition settledAs :: "string option \<Rightarrow> bet \<Rightarrow> bet \<Rightarrow> bool" where
  "settledAs unified b b' =
     (bet_id b' = bet_id b \<and> userId b' = userId b \<and> gameId b' = gameId b \<and>
      betType b' = betType b \<and> betNumber b' = betNumber b \<and> betAmount b' = betAmount b \<and>
      potentialWinning b' = potentialWinning b \<and>
      (if betIsWinner unified b
       then status b' = Won \<and> isWinner b' = Some True \<and> winningAmount b' = Some (potentialWinning b)
       else status b' = Lost \<and> isWinner b' = Some False \<and> winningAmount b' = winningAmount b))"

text \<open>The document the iteration saves for the bet \<open>b\<close> (lines 918-962).\<close>

definition savedDoc :: "string option \<Rightarrow> db \<Rightarrow> bet \<Rightarrow> bet" where
  "savedDoc unified d b =
     (if betIsWinner unified b then
        (case wallets d (userId b) of
           Some w \<Rightarrow>
             b\<lparr>isWinner := Some True, winningAmount := Some (potentialWinning b),
               actualPayout := Some (potentialWinning b), status := Won,
               winningTransactionId := Some (nextId d)\<rparr>
         | None \<Rightarrow>
             b\<lparr>isWinner := Some True, winningAmount := Some (potentialWinning b),
               actualPayout := Some (potentialWinning b), status := Won\<rparr>)
      else b\<lparr>isWinner := Some False, status := Lost\<rparr>)"

text \<open>The credit a wallet receives for a winning bet (lines 934-935).\<close>

definition creditWallet :: "real \<Rightarrow> wallet \<Rightarrow> wallet" where
  "creditWallet amount w =
     w\<lparr>winningBalance := js_add (winningBalance w) amount,
       totalWinnings := js_add (totalWinnings w) amount\<rparr>"

text \<open>The database a settlement run leaves behind, whether the loop completed or threw.\<close>

definition leftBehind :: "db + settleAcc \<times> db \<Rightarrow> db" where
  "leftBehind r = (case r of Inl d \<Rightarrow> d | Inr (acc, d) \<Rightarrow> d)"

text \<open>
  The document of a bet after one iteration of the loop of processBetsForResult (second
  version): three fields are set, the status and every other field stay.
\<close>

definition markedAs :: "declaredResults \<Rightarrow> bet \<Rightarrow> bet" where
  "markedAs r b =
     b\<lparr>isWinning := Some (checkBetWinning b r), resultDeclared := True,
       bet_declaredResult := Some (fallback r)\<rparr>"

text \<open>The credit a user document receives for a winning bet (\<open>$inc\<close>).\<close>

definition creditUserDoc :: "real \<Rightarrow> user \<Rightarrow> user" where
  "creditUserDoc amount u =
     u\<lparr>u_winningBalance := js_add (u_winningBalance u) amount,
       u_totalWinnings := js_add (u_totalWinnings u) amount\<rparr>"

text \<open>The result object the second version of the route passes to processBetsForResult.\<close>

definition resultObject :: "declareBody \<Rightarrow> declaredResults" where
  "resultObject body =
     \<lparr>jodi = or_empty (jodiResult body), haruf = or_empty (harufResult body),
      crossing = or_empty (crossingResult body),
      fallback = trim (the (or_else (jodiResult body)
                   (or_else (harufResult body)
                      (or_else (crossingResult body) (body_declaredResult body)))))\<rparr>"

section \<open>Concrete documents used in the examples\<close>

definition exGame :: game where
  "exGame = \<lparr>name = ''Delhi Bazar'', gtype = Jodi, isActive = True,
     startTime = ''08:00'', endTime = ''15:30'', resultTime = ''16:00'',
     minBet = 10, maxBet = 10000, commission = 5,
     jodiPayout = 95, harufPayout = 9, crossingPayout = 95,
     declaredResult = None, currentStatus = Closed, forcedStatus = None\<rparr>"

definition earlyResultGame :: game where
  "earlyResultGame = exGame\<lparr>resultTime := ''10:00''\<rparr>"

definition nightGame :: game where
  "nightGame = exGame\<lparr>startTime := ''20:00'', endTime := ''03:00'', resultTime := ''03:30''\<rparr>"



definition exBet :: bet where
  "exBet = \<lparr>bet_id = 1, userId = 7, gameId = 3, gameType = Crossing,
     betType = ''crossing'', betNumber = ''12'', betAmount = 10, potentialWinning = 950,
     betData = \<lparr>harufPosition = None, harufDigit = None\<rparr>,
     status = Pending, deductionTransactionId = 0,
     isWinner = None, winningAmount = None, actualPayout = None, winningTransactionId = None,
     isWinning = None, resultDeclared = False, bet_declaredResult = None,
     top_harufPosition = None, crossingCombinations = None\<rparr>"

definition exResults :: declaredResults where
  "exResults = \<lparr>jodi = ''62'', haruf = ''14'', crossing = ''123'', fallback = ''123''\<rparr>"

definition harufBet :: bet where
  "harufBet = exBet\<lparr>gameType := Haruf, betType := ''haruf'', betNumber := ''4''\<rparr>"

definition exWallet :: wallet where
  "exWallet = \<lparr>depositBalance = 100, winningBalance = 0, totalWinnings = 0, totalBets = 0\<rparr>"

definition exBody :: declareBody where
  "exBody = \<lparr>jodiResult = None, harufResult = None, crossingResult = Some ''123'',
     body_declaredResult = None\<rparr>"

text \<open>
  A crossing game with three pending bets: user 7 (with a wallet) on 12, user 8 (without a
  wallet) on 21, and user 7 on 45.
\<close>

definition exDb :: db where
  "exDb = \<lparr>games = [3 \<mapsto> exGame\<lparr>gtype := Crossing\<rparr>], gameResults = [],
     bets = [exBet, exBet\<lparr>bet_id := 2, userId := 8, betNumber := ''21''\<rparr>,
             exBet\<lparr>bet_id := 3, betNumber := ''45''\<rparr>],
     wallets = [7 \<mapsto> exWallet], users = Map.empty, transactions = [], nextId = 10\<rparr>"

definition exSummary :: summary where
  "exSummary =
     \<lparr>s_gameResult =
        \<lparr>gr_gameId = 3, gr_resultDate = 0, gr_jodiResult = None, gr_harufResult = None,
         gr_crossingResult = Some ''123'', gr_totalBets = 3, totalBetAmount = 30,
         totalWinningAmount = 1900, platformCommission = 3 / 2, netProfit = - (3743 / 2),
         gr_betDistribution =
           [''jodi'' \<mapsto> dist0, ''haruf'' \<mapsto> dist0,
            ''crossing'' \<mapsto> \<lparr>d_totalBets = 3, d_totalAmount = 30, d_winningBets = 2,
                               d_winningAmount = 1900\<rparr>],
         gr_status = Declared, gr_isManual = True, declaredBy = Some 1\<rparr>,
      winnersCount = 2, s_totalWinningAmount = 1900, s_netProfit = - (3743 / 2),
      betsProcessed = 3\<rparr>"

definition wonDb :: db where
  "wonDb = \<lparr>games = [3 \<mapsto> exGame\<lparr>gtype := Crossing\<rparr>], gameResults = [],
     bets = [exBet\<lparr>status := Won, isWinner := Some True, winningAmount := Some 950\<rparr>],
     wallets = Map.empty,
     users = [7 \<mapsto> \<lparr>u_winningBalance = 950, u_totalWinnings = 950\<rparr>],
     transactions = [], nextId = 10\<rparr>"

definition exRequest :: placeRequest where
  "exRequest = \<lparr>req_gameId = Some 3, req_betType = Some ''haruf'', req_betNumber = Some ''4'',
     req_betAmount = Some 50, req_betData = \<lparr>harufPosition = Some ''first'', harufDigit = Some ''4''\<rparr>\<rparr>"

definition jodiDb :: db where
  "jodiDb = exDb\<lparr>games := [3 \<mapsto> exGame], bets := []\<rparr>"


definition elevenDb :: db where
  "elevenDb = exDb\<lparr>bets := [exBet\<lparr>betNumber := ''11''\<rparr>]\<rparr>"

definition harufDb :: db where
  "harufDb = exDb\<lparr>games := [3 \<mapsto> exGame\<lparr>gtype := Haruf\<rparr>], bets := [harufBet],
     users := [7 \<mapsto> \<lparr>u_winningBalance = 0, u_totalWinnings = 0\<rparr>]\<rparr>"

definition harufBody :: declareBody where
  "harufBody = \<lparr>jodiResult = None, harufResult = Some ''14'', crossingResult = None,
     body_declaredResult = None\<rparr>"

text \<open>The crossing game with a commission of 3 per cent.\<close>

definition rateDb :: db where
  "rateDb = exDb\<lparr>games := [3 \<mapsto> exGame\<lparr>gtype := Crossing, commission := 3\<rparr>]\<rparr>"

text \<open>The crossing game with a user document for user 7.\<close>

definition routeDb :: db where
  "routeDb = exDb\<lparr>users := [7 \<mapsto> \<lparr>u_winningBalance = 0, u_totalWinnings = 0\<rparr>]\<rparr>"



section \<open>Rounding leaves whole numbers alone\<close>

lemma bitLength_le: "n < 2 ^ k \<Longrightarrow> bitLength n \<le> k"
proof (induction k arbitrary: n)
  case 0
  then show ?case by (simp add: bitLength.simps)
next
  case (Suc k)
  have "n div 2 < 2 ^ k" using Suc.prems by auto
  from Suc.IH[OF this] show ?case by (subst bitLength.simps) simp
qed

lemma bitLength_pos: "0 < n \<Longrightarrow> 0 < bitLength n"
  by (subst bitLength.simps) simp

lemma round_even_of_int: "round_even (of_int m) = m"
  by (simp add: round_even_def Let_def)

text \<open>An integer below \<open>2 ^ 53\<close> in absolute value is a binary64 value.\<close>

lemma fl_int:
  assumes "\<bar>n\<bar> < 2 ^ 53"
  shows "fl (of_int n) = of_int n"
proof (cases "n = 0")
  case True
  then show ?thesis by (simp add: fl_def)
next
  case False
  define k where "k = bitLength (nat \<bar>n\<bar>)"
  have k1: "0 < k" unfolding k_def using False by (intro bitLength_pos) simp
  have "nat \<bar>n\<bar> < 2 ^ 53" using assms by (simp add: nat_less_iff)
  then have k2: "k \<le> 53" unfolding k_def by (rule bitLength_le)
  have ge1: "(1::real) \<le> \<bar>of_int n\<bar>" using False by (simp flip: of_int_abs)
  have fl_abs: "\<lfloor>\<bar>of_int n :: real\<bar>\<rfloor> = \<bar>n\<bar>" by (simp flip: of_int_abs)
  have e: "expo (of_int n) = int k - 1"
    using ge1 by (simp add: expo_def k_def fl_abs)
  define j where "j = 53 - k"
  have m: "max (int k - 1) (- 1022) = int k - 1" using k1 by simp
  have ej: "int k - 1 - 52 = - int j" using k1 k2 by (simp add: j_def)
  have q: "(2::real) powi (- int j) = 1 / 2 ^ j"
    by (simp add: power_int_minus divide_simps)
  have r: "round_even (of_int n / (1 / 2 ^ j)) = n * 2 ^ j"
    using round_even_of_int[of "n * 2 ^ j"] by simp
  have "fl (of_int n) =
      of_int (round_even (of_int n / 2 powi (int k - 1 - 52))) * 2 powi (int k - 1 - 52)"
    using False unfolding fl_def e m Let_def by simp
  also have "\<dots> = of_int n" unfolding ej q r by simp
  finally show ?thesis .
qed

lemma fl_numeral: "numeral w < (2::int) ^ 53 \<Longrightarrow> fl (numeral w) = numeral w"
  using fl_int[of "numeral w"] by simp

lemma fl_neg_numeral: "numeral w < (2::int) ^ 53 \<Longrightarrow> fl (- numeral w) = - numeral w"
  using fl_int[of "- numeral w"] by simp

lemma fl_0: "fl 0 = 0"
  by (simp add: fl_def)

lemmas js_whole = js_add_def js_sub_def js_mul_def fl_numeral fl_neg_numeral fl_0

text \<open>The values that occur in the examples.\<close>

lemma js_values:
  "js_add 0 10 = 10" "js_add 10 10 = 20" "js_add 20 10 = 30"
  "js_add 0 950 = 950" "js_add 950 950 = 1900" "js_add 0 90 = 90"
  "js_sub 30 1900 = - 1870" "js_sub 10 0 = 10"
  "js_mul 50 9 = 450" "js_sub 100 50 = 50" "js_add 0 50 = 50"
  by (simp_all add: js_whole)

lemma js_commission_5:
  "js_mul 30 (js_div 5 100) = 3 / 2"
  "js_mul 10 (js_div 5 100) = 1 / 2"
  "js_sub (- 1870) (3 / 2) = - (3743 / 2)"
  by code_simp+

lemma js_commission_3:
  "js_mul 30 (js_div 3 100) = 2026619832316723 / 2251799813685248"
  "js_sub (- 1870) (2026619832316723 / 2251799813685248) = - (4114152608812237 / 2199023255552)"
  by code_simp+

lemma js_quotient_90:
  "js_div (js_mul 30 3) 100 = 8106479329266893 / 9007199254740992"
  by code_simp

section \<open>Times of day: string order and minute order\<close>

lemma hhmm_cases: "hhmm s \<Longrightarrow> \<exists>a b c d. s = [a, b, CHR '':'', c, d] \<and> isDigit a \<and> isDigit b \<and> isDigit c \<and> isDigit d \<and> 10 * digitVal a + digitVal b < 24 \<and> 10 * digitVal c + digitVal d < 60"
  unfolding hhmm_def by (auto split: list.splits)

lemma colon_not_digit: "isDigit c \<Longrightarrow> c \<noteq> CHR '':''"
  by (auto simp: isDigit_def)

lemma timeToMinutes_digits: "isDigit a \<Longrightarrow> isDigit b \<Longrightarrow> isDigit c \<Longrightarrow> isDigit d \<Longrightarrow>
  timeToMinutes [a, b, CHR '':'', c, d] = Some ((10 * digitVal a + digitVal b) * 60 + (10 * digitVal c + digitVal d))"
  by (simp add: timeToMinutes_def Number_def colon_not_digit)

lemma digit_eq: "(a = b) = (digitVal a = digitVal b)"
  by (auto simp: digitVal_def)
lemma digit_lt: "((of_char a :: nat) < of_char b) = (digitVal a < digitVal b)"
  by (auto simp: digitVal_def)
lemma digit_range: "isDigit a \<Longrightarrow> 0 \<le> digitVal a \<and> digitVal a \<le> 9"
  by (auto simp: digitVal_def isDigit_def)

lemma lex10: fixes x y x' y' :: int
  assumes "0 \<le> y" "y \<le> 9" "0 \<le> y'" "y' \<le> 9"
  shows "(x < x' \<or> x = x' \<and> y < y') = (10 * x + y < 10 * x' + y')"
proof
  assume "x < x' \<or> x = x' \<and> y < y'" then show "10 * x + y < 10 * x' + y'" using assms by linarith
next
  assume "10 * x + y < 10 * x' + y'" then show "x < x' \<or> x = x' \<and> y < y'" using assms by linarith
qed

lemma eq10: fixes x y x' y' :: int
  assumes "0 \<le> y" "y \<le> 9" "0 \<le> y'" "y' \<le> 9"
  shows "(x = x' \<and> y = y') = (10 * x + y = 10 * x' + y')"
proof
  assume "x = x' \<and> y = y'" then show "10 * x + y = 10 * x' + y'" by simp
next
  assume a: "10 * x + y = 10 * x' + y'"
  have "x = x'" using a assms by linarith
  with a show "x = x' \<and> y = y'" by simp
qed

lemma lex60: fixes x y x' y' :: int
  assumes "0 \<le> y" "y < 60" "0 \<le> y'" "y' < 60"
  shows "(x < x' \<or> x = x' \<and> y < y') = (x * 60 + y < x' * 60 + y')"
proof
  assume "x < x' \<or> x = x' \<and> y < y'" then show "x * 60 + y < x' * 60 + y'" using assms by linarith
next
  assume "x * 60 + y < x' * 60 + y'" then show "x < x' \<or> x = x' \<and> y < y'" using assms by linarith
qed

lemma str_lt_digits:
  "str_lt [a, b, k, c, d] [a', b', k, c', d'] =
    (digitVal a < digitVal a' \<or> digitVal a = digitVal a' \<and>
      (digitVal b < digitVal b' \<or> digitVal b = digitVal b' \<and>
        (digitVal c < digitVal c' \<or> digitVal c = digitVal c' \<and> digitVal d < digitVal d')))"
  by (simp add: digit_lt digit_eq)

lemma str_lt_hhmm:
  assumes "hhmm s" "hhmm t"
  shows "str_lt s t = (the (timeToMinutes s) < the (timeToMinutes t))"
proof -
  from hhmm_cases[OF assms(1)] obtain a b c d where s: "s = [a, b, CHR '':'', c, d]" and
    ds: "isDigit a" "isDigit b" "isDigit c" "isDigit d" and m: "10 * digitVal c + digitVal d < 60" by blast
  from hhmm_cases[OF assms(2)] obtain a' b' c' d' where t: "t = [a', b', CHR '':'', c', d']" and
    dt: "isDigit a'" "isDigit b'" "isDigit c'" "isDigit d'" and m': "10 * digitVal c' + digitVal d' < 60" by blast
  note r = digit_range[OF ds(1)] digit_range[OF ds(2)] digit_range[OF ds(3)] digit_range[OF ds(4)]
     digit_range[OF dt(1)] digit_range[OF dt(2)] digit_range[OF dt(3)] digit_range[OF dt(4)]
  let ?H = "10 * digitVal a + digitVal b" and ?H' = "10 * digitVal a' + digitVal b'"
  let ?M = "10 * digitVal c + digitVal d" and ?M' = "10 * digitVal c' + digitVal d'"
  have M0: "0 \<le> ?M" "0 \<le> ?M'" using r by auto
  have h: "(digitVal a < digitVal a' \<or> digitVal a = digitVal a' \<and> digitVal b < digitVal b') = (?H < ?H')"
    using r by (intro lex10) auto
  have he: "(digitVal a = digitVal a' \<and> digitVal b = digitVal b') = (?H = ?H')"
    using r by (intro eq10) auto
  have mm: "(digitVal c < digitVal c' \<or> digitVal c = digitVal c' \<and> digitVal d < digitVal d') = (?M < ?M')"
    using r by (intro lex10) auto
  have "str_lt s t = (?H < ?H' \<or> ?H = ?H' \<and> ?M < ?M')"
    unfolding s t str_lt_digits using h he mm by blast
  also have "\<dots> = (?H * 60 + ?M < ?H' * 60 + ?M')"
    using M0 m m' by (intro lex60) auto
  finally show ?thesis
    by (simp add: s t timeToMinutes_digits ds dt)
qed

lemma timeToMinutes_hhmm: "hhmm s \<Longrightarrow> \<exists>m. timeToMinutes s = Some m"
  using hhmm_cases[of s] timeToMinutes_digits by blast

lemma timeStatus_Some:
  "timeStatus (Some c) (Some s) (Some e) (Some r) =
     (if e > s then
        (if s \<le> c \<and> c < e then Open else if e \<le> c \<and> c < r then Closed
         else if r \<le> c then ResultDeclared else Waiting)
      else if r > e then
        (if s \<le> c \<or> c < e then Open else if e \<le> c \<and> c < r then Closed
         else if r \<le> c \<and> c < s then ResultDeclared else Waiting)
      else
        (if s \<le> c \<or> c < e then Open else if (e \<le> c \<and> c < 1440) \<or> (0 \<le> c \<and> c < r) then Closed
         else if r \<le> c \<and> c < s then ResultDeclared else Waiting))"
  by (simp add: timeStatus_def num_lt_def num_gt_def num_ge_def)

lemma exTimes:
  "timeToMinutes ''12:00'' = Some 720" "timeToMinutes ''08:00'' = Some 480"
  "timeToMinutes ''15:30'' = Some 930" "timeToMinutes ''16:00'' = Some 960"
  "timeToMinutes ''10:00'' = Some 600" "timeToMinutes ''20:00'' = Some 1200"
  "timeToMinutes ''03:00'' = Some 180" "timeToMinutes ''03:30'' = Some 210"
  "timeToMinutes ''03:15'' = Some 195"
  by (simp_all add: timeToMinutes_def Number_def isDigit_def digitVal_def)



section \<open>The status windows\<close>

text \<open>
  Claim C5, as the code has it. For an active game without forced status whose four times
  parse, getAllGames and placeBet derive the same status from the minutes since midnight.
  Same-day window (end after start): open iff start \<le> current < end; closed iff
  end \<le> current < result; result declared iff current \<ge> result and the current time is
  not inside the open window (open is tested first, which matters when the result time
  lies before the end time); waiting otherwise. Window across midnight (end not after
  start): open iff current \<ge> start or current < end; with the result after the end, closed
  iff end \<le> current < result (and before start) and result declared iff
  result \<le> current < start; with the result not after the end, every time of day that is
  not open is closed; waiting does not occur.
\<close>

theorem status_windows:
  assumes "isActive g" and "forcedStatus g = None"
    and "timeToMinutes currentTime = Some c"
    and "timeToMinutes (startTime g) = Some s"
    and "timeToMinutes (endTime g) = Some e"
    and "timeToMinutes (resultTime g) = Some r"
  shows "placeBet_status currentTime g = getAllGames_status currentTime g \<and>
    (s < e \<longrightarrow>
       (getAllGames_status currentTime g = Open) = (s \<le> c \<and> c < e) \<and>
       (getAllGames_status currentTime g = Closed) = (e \<le> c \<and> c < r) \<and>
       (getAllGames_status currentTime g = ResultDeclared) = (r \<le> c \<and> \<not> (s \<le> c \<and> c < e)) \<and>
       (getAllGames_status currentTime g = Waiting) =
          (\<not> (s \<le> c \<and> c < e) \<and> \<not> (e \<le> c \<and> c < r) \<and> \<not> r \<le> c)) \<and>
    (e \<le> s \<longrightarrow>
       (getAllGames_status currentTime g = Open) = (s \<le> c \<or> c < e) \<and>
       (e < r \<longrightarrow>
          (getAllGames_status currentTime g = Closed) = (e \<le> c \<and> c < r \<and> c < s) \<and>
          (getAllGames_status currentTime g = ResultDeclared) = (r \<le> c \<and> c < s)) \<and>
       (r \<le> e \<longrightarrow>
          (getAllGames_status currentTime g = Closed) = (e \<le> c \<and> c < s \<and> c < 1440) \<and>
          (getAllGames_status currentTime g = ResultDeclared) = (e \<le> c \<and> c < s \<and> 1440 \<le> c)) \<and>
       getAllGames_status currentTime g \<noteq> Waiting)"
proof -
  have a: "getAllGames_status currentTime g = timeStatus (Some c) (Some s) (Some e) (Some r)"
    using assms by (simp add: getAllGames_status_def)
  have p: "placeBet_status currentTime g = timeStatus (Some c) (Some s) (Some e) (Some r)"
    using assms by (simp add: placeBet_status_def)
  have same: "s < e \<Longrightarrow>
       (timeStatus (Some c) (Some s) (Some e) (Some r) = Open) = (s \<le> c \<and> c < e) \<and>
       (timeStatus (Some c) (Some s) (Some e) (Some r) = Closed) = (e \<le> c \<and> c < r) \<and>
       (timeStatus (Some c) (Some s) (Some e) (Some r) = ResultDeclared) = (r \<le> c \<and> \<not> (s \<le> c \<and> c < e)) \<and>
       (timeStatus (Some c) (Some s) (Some e) (Some r) = Waiting) =
          (\<not> (s \<le> c \<and> c < e) \<and> \<not> (e \<le> c \<and> c < r) \<and> \<not> r \<le> c)"
    unfolding timeStatus_Some by auto
  have cross1: "e \<le> s \<Longrightarrow>
       (timeStatus (Some c) (Some s) (Some e) (Some r) = Open) = (s \<le> c \<or> c < e) \<and>
       timeStatus (Some c) (Some s) (Some e) (Some r) \<noteq> Waiting"
    unfolding timeStatus_Some by auto
  have cross2: "e \<le> s \<Longrightarrow> e < r \<Longrightarrow>
          (timeStatus (Some c) (Some s) (Some e) (Some r) = Closed) = (e \<le> c \<and> c < r \<and> c < s) \<and>
          (timeStatus (Some c) (Some s) (Some e) (Some r) = ResultDeclared) = (r \<le> c \<and> c < s)"
    unfolding timeStatus_Some by auto
  have cross3: "e \<le> s \<Longrightarrow> r \<le> e \<Longrightarrow>
          (timeStatus (Some c) (Some s) (Some e) (Some r) = Closed) = (e \<le> c \<and> c < s \<and> c < 1440) \<and>
          (timeStatus (Some c) (Some s) (Some e) (Some r) = ResultDeclared) = (e \<le> c \<and> c < s \<and> 1440 \<le> c)"
    unfolding timeStatus_Some by auto
  show ?thesis
    unfolding a p using same cross1 cross2 cross3 by blast
qed

theorem status_windows_witness:
  "getAllGames_status ''12:00'' exGame = Open \<and> placeBet_status ''12:00'' exGame = Open \<and>
   getAllGames_status ''03:15'' nightGame = Closed \<and> placeBet_status ''03:15'' nightGame = Closed"
proof -
  have g: "isActive exGame" "forcedStatus exGame = None"
    "timeToMinutes (startTime exGame) = Some 480" "timeToMinutes (endTime exGame) = Some 930"
    "timeToMinutes (resultTime exGame) = Some 960"
    by (simp_all add: exGame_def exTimes)
  have n: "isActive nightGame" "forcedStatus nightGame = None"
    "timeToMinutes (startTime nightGame) = Some 1200" "timeToMinutes (endTime nightGame) = Some 180"
    "timeToMinutes (resultTime nightGame) = Some 210"
    by (simp_all add: nightGame_def exGame_def exTimes)
  from status_windows[OF g(1,2) exTimes(1) g(3,4,5)]
       status_windows[OF n(1,2) exTimes(9) n(3,4,5)]
  show ?thesis by simp
qed


text \<open>
  The sentence "result declared iff current \<ge> result" of claim C5 fails where the result
  time lies inside the open window: at 12:00 a game open from 08:00 to 15:30 with result
  time 10:00 is open.
\<close>

theorem result_declared_window_counterexample:
  "isActive earlyResultGame \<and> forcedStatus earlyResultGame = None \<and>
   timeToMinutes ''12:00'' = Some 720 \<and>
   timeToMinutes (startTime earlyResultGame) = Some 480 \<and>
   timeToMinutes (endTime earlyResultGame) = Some 930 \<and>
   timeToMinutes (resultTime earlyResultGame) = Some 600 \<and>
   (930 :: int) > 480 \<and> (720 :: int) \<ge> 600 \<and>
   getAllGames_status ''12:00'' earlyResultGame = Open \<and>
   placeBet_status ''12:00'' earlyResultGame = Open \<and>
   getAllGames_status ''12:00'' earlyResultGame \<noteq> ResultDeclared"
  by (simp add: earlyResultGame_def exGame_def exTimes getAllGames_status_def placeBet_status_def
        timeStatus_Some)


text \<open>
  Claim C10. For an active game without forced status whose three times and the current time
  are zero-padded HH:mm strings with startTime < endTime as strings, the status getGameById
  computes by comparing the strings equals the status of the minutes-based evaluator of
  getAllGames and placeBet.
\<close>

theorem getGameById_status_agrees:
  assumes "isActive g" and "forcedStatus g = None"
    and "hhmm (startTime g)" and "hhmm (endTime g)" and "hhmm (resultTime g)"
    and "hhmm currentTime"
    and "str_lt (startTime g) (endTime g)"
  shows "getGameById_status currentTime g = getAllGames_status currentTime g \<and>
         getGameById_status currentTime g = placeBet_status currentTime g"
proof -
  obtain c where mc: "timeToMinutes currentTime = Some c"
    using timeToMinutes_hhmm[OF assms(6)] by blast
  obtain s where mst: "timeToMinutes (startTime g) = Some s"
    using timeToMinutes_hhmm[OF assms(3)] by blast
  obtain e where me: "timeToMinutes (endTime g) = Some e"
    using timeToMinutes_hhmm[OF assms(4)] by blast
  obtain r where mr: "timeToMinutes (resultTime g) = Some r"
    using timeToMinutes_hhmm[OF assms(5)] by blast
  note ms = mc mst me mr
  have cs: "str_lt currentTime (startTime g) = (c < s)"
    using str_lt_hhmm[OF assms(6) assms(3)] ms by simp
  have ce: "str_lt currentTime (endTime g) = (c < e)"
    using str_lt_hhmm[OF assms(6) assms(4)] ms by simp
  have cr: "str_lt currentTime (resultTime g) = (c < r)"
    using str_lt_hhmm[OF assms(6) assms(5)] ms by simp
  have se: "s < e"
    using str_lt_hhmm[OF assms(3) assms(4)] ms assms(7) by simp
  have byId: "getGameById_status currentTime g =
      (if s \<le> c \<and> c < e then Open else if e \<le> c \<and> c < r then Closed
       else if r \<le> c then ResultDeclared else Waiting)"
    using assms(1,2) by (simp add: getGameById_status_def str_ge_def cs ce cr not_less)
  have win: "timeStatus (Some c) (Some s) (Some e) (Some r) =
      (if s \<le> c \<and> c < e then Open else if e \<le> c \<and> c < r then Closed
       else if r \<le> c then ResultDeclared else Waiting)"
    using se by (simp only: timeStatus_Some if_True)
  show ?thesis
    using assms(1,2) by (simp add: byId getAllGames_status_def placeBet_status_def ms win)
qed

theorem getGameById_status_agrees_witness:
  "isActive exGame \<and> forcedStatus exGame = None \<and> hhmm (startTime exGame) \<and> hhmm (endTime exGame) \<and>
   hhmm (resultTime exGame) \<and> hhmm ''15:45'' \<and> str_lt (startTime exGame) (endTime exGame) \<and>
   getGameById_status ''15:45'' exGame = Closed \<and> getAllGames_status ''15:45'' exGame = Closed \<and>
   placeBet_status ''15:45'' exGame = Closed"
proof -
  have h: "isActive exGame" "forcedStatus exGame = None" "hhmm (startTime exGame)"
    "hhmm (endTime exGame)" "hhmm (resultTime exGame)" "hhmm ''15:45''"
    "str_lt (startTime exGame) (endTime exGame)"
    by (simp_all add: exGame_def hhmm_def isDigit_def digitVal_def)
  have c: "getGameById_status ''15:45'' exGame = Closed"
    by (simp add: exGame_def getGameById_status_def str_ge_def)
  from getGameById_status_agrees[OF h] c h show ?thesis by simp
qed


section \<open>The settlement loop of games.ts\<close>


lemma savedDoc_settledAs: "settledAs u b (savedDoc u d b)"
  by (simp add: settledAs_def savedDoc_def split: option.splits)

lemma savedDoc_win_txn:
  "winningTransactionId b = None \<Longrightarrow>
     (winningTransactionId (savedDoc u d b) = None) = (\<not> betIsWinner u b \<or> wallets d (userId b) = None)"
  by (simp add: savedDoc_def split: option.splits)

lemma processBet_bets:
  assumes "processBet gid u b (acc, d) = Some (acc', d')"
  shows "bets d' = map (\<lambda>x. if bet_id x = bet_id b then savedDoc u d b else x) (bets d)"
  using assms
  by (auto simp add: processBet_def Let_def saveBet_def savedDoc_def split: option.splits if_splits)

lemma processBet_total:
  assumes "processBet gid u b (acc, d) = Some (acc', d')"
  shows "acc_totalWinningAmount acc' =
           (if betIsWinner u b then js_add (acc_totalWinningAmount acc) (potentialWinning b)
            else acc_totalWinningAmount acc)"
  using assms
  by (auto simp add: processBet_def Let_def split: option.splits if_splits)

lemma processBet_dom:
  assumes "processBet gid u b (acc, d) = Some (acc', d')"
  shows "dom (acc_betDistribution acc') = dom (acc_betDistribution acc)"
  using assms
  by (auto simp add: processBet_def Let_def split: option.splits if_splits)

lemma processBet_wallets:
  assumes "processBet gid u b (acc, d) = Some (acc', d')"
  shows "wallets d' =
           (if betIsWinner u b
            then (case wallets d (userId b) of
                    None \<Rightarrow> wallets d
                  | Some w \<Rightarrow> (wallets d)(userId b \<mapsto> creditWallet (potentialWinning b) w))
            else wallets d)"
  using assms
  by (auto simp add: processBet_def Let_def saveBet_def creditWallet_def split: option.splits if_splits)

lemma processBet_transactions:
  assumes "processBet gid u b (acc, d) = Some (acc', d')"
  shows "transactions d' =
           transactions d @
           (if betIsWinner u b \<and> wallets d (userId b) \<noteq> None
            then [\<lparr>txn_id = nextId d, txn_userId = userId b, txn_type = ''win'',
                   txn_amount = potentialWinning b, txn_gameId = gid\<rparr>]
            else [])"
  using assms
  by (auto simp add: processBet_def Let_def saveBet_def split: option.splits if_splits)

lemma processBet_others:
  assumes "processBet gid u b (acc, d) = Some (acc', d')"
  shows "games d' = games d \<and> gameResults d' = gameResults d \<and> users d' = users d"
  using assms
  by (auto simp add: processBet_def Let_def saveBet_def split: option.splits if_splits)


lemma settledAs_bet_id: "settledAs u b b' \<Longrightarrow> bet_id b' = bet_id b"
  by (simp add: settledAs_def)

lemma settleBets_Cons_Inr:
  assumes "settleBets gid u (b # bs) (acc, d) = Inr (acc', d')"
  obtains acc1 d1 where "processBet gid u b (acc, d) = Some (acc1, d1)"
    and "settleBets gid u bs (acc1, d1) = Inr (acc', d')"
  using assms by (auto split: option.splits)

lemma settleBets_bets:
  "settleBets gid u bs (acc, d) = Inr (acc', d') \<Longrightarrow>
     list_all2 (\<lambda>x x'. if bet_id x \<in> bet_id ` set bs
                        then (\<exists>b \<in> set bs. bet_id b = bet_id x \<and> settledAs u b x')
                        else x' = x) (bets d) (bets d')"
proof (induction bs arbitrary: acc d)
  case Nil
  then show ?case by (simp add: list_all2_same)
next
  case (Cons b bs)
  from Cons.prems obtain acc1 d1 where
    step: "processBet gid u b (acc, d) = Some (acc1, d1)" and
    rest: "settleBets gid u bs (acc1, d1) = Inr (acc', d')"
    by (rule settleBets_Cons_Inr)
  let ?f = "\<lambda>x. if bet_id x = bet_id b then savedDoc u d b else x"
  let ?R = "\<lambda>bs x x'. if bet_id x \<in> bet_id ` set bs
                        then (\<exists>b \<in> set bs. bet_id b = bet_id x \<and> settledAs u b x')
                        else x' = x"
  have b1: "bets d1 = map ?f (bets d)"
    using processBet_bets[OF step] .
  have ih: "list_all2 (\<lambda>x x'. ?R bs (?f x) x') (bets d) (bets d')"
    using Cons.IH[OF rest] unfolding b1 by (simp add: list_all2_map1)
  have sd: "settledAs u b (savedDoc u d b)" by (rule savedDoc_settledAs)
  have mono: "?R bs (?f x) x' \<Longrightarrow> ?R (b # bs) x x'" for x x'
  proof (cases "bet_id x = bet_id b")
    case True
    assume a: "?R bs (?f x) x'"
    have id: "bet_id (savedDoc u d b) = bet_id b" using sd by (rule settledAs_bet_id)
    show ?thesis
    proof (cases "bet_id b \<in> bet_id ` set bs")
      case True
      with a \<open>bet_id x = bet_id b\<close> id show ?thesis by auto
    next
      case False
      with a \<open>bet_id x = bet_id b\<close> id have "x' = savedDoc u d b" by auto
      with sd \<open>bet_id x = bet_id b\<close> show ?thesis by auto
    qed
  next
    case False
    assume a: "?R bs (?f x) x'"
    with False show ?thesis by auto
  qed
  show ?case
    by (rule list_all2_mono[OF ih]) (rule mono)
qed

lemma settleBets_total:
  "settleBets gid u bs (acc, d) = Inr (acc', d') \<Longrightarrow>
     acc_totalWinningAmount acc' =
       foldl js_add (acc_totalWinningAmount acc) (map potentialWinning (filter (betIsWinner u) bs))"
proof (induction bs arbitrary: acc d)
  case Nil
  then show ?case by simp
next
  case (Cons b bs)
  from Cons.prems obtain acc1 d1 where
    step: "processBet gid u b (acc, d) = Some (acc1, d1)" and
    rest: "settleBets gid u bs (acc1, d1) = Inr (acc', d')"
    by (rule settleBets_Cons_Inr)
  show ?case
    using Cons.IH[OF rest] processBet_total[OF step] by simp
qed

text \<open>Each wallet receives the winnings of its owner's winning bets, one credit after the other.\<close>

lemma settleBets_wallets:
  "settleBets gid u bs (acc, d) = Inr (acc', d') \<Longrightarrow>
     wallets d' uid =
       map_option
         (\<lambda>w. foldl (\<lambda>w b. creditWallet (potentialWinning b) w) w
                (filter (\<lambda>b. betIsWinner u b \<and> userId b = uid) bs))
         (wallets d uid)"
proof (induction bs arbitrary: acc d)
  case Nil
  then show ?case by (cases "wallets d uid") simp_all
next
  case (Cons b bs)
  from Cons.prems obtain acc1 d1 where
    step: "processBet gid u b (acc, d) = Some (acc1, d1)" and
    rest: "settleBets gid u bs (acc1, d1) = Inr (acc', d')"
    by (rule settleBets_Cons_Inr)
  have w1: "wallets d1 uid =
      (if betIsWinner u b \<and> userId b = uid
       then map_option (creditWallet (potentialWinning b)) (wallets d uid)
       else wallets d uid)"
    unfolding processBet_wallets[OF step] by (auto split: option.splits)
  show ?case
    unfolding Cons.IH[OF rest] w1
    by (cases "wallets d uid") simp_all
qed

lemma settleBets_transactions:
  "settleBets gid u bs (acc, d) = Inr (acc', d') \<Longrightarrow>
     \<exists>new. transactions d' = transactions d @ new \<and>
       map (\<lambda>t. (txn_userId t, txn_type t, txn_amount t, txn_gameId t)) new =
       map (\<lambda>b. (userId b, ''win'', potentialWinning b, gid))
         (filter (\<lambda>b. betIsWinner u b \<and> wallets d (userId b) \<noteq> None) bs)"
proof (induction bs arbitrary: acc d)
  case Nil
  then show ?case by simp
next
  case (Cons b bs)
  from Cons.prems obtain acc1 d1 where
    step: "processBet gid u b (acc, d) = Some (acc1, d1)" and
    rest: "settleBets gid u bs (acc1, d1) = Inr (acc', d')"
    by (rule settleBets_Cons_Inr)
  have dom1: "(wallets d1 uid \<noteq> None) = (wallets d uid \<noteq> None)" for uid
    unfolding processBet_wallets[OF step] by (auto split: option.splits)
  from Cons.IH[OF rest] obtain new where
    n: "transactions d' = transactions d1 @ new" and
    m: "map (\<lambda>t. (txn_userId t, txn_type t, txn_amount t, txn_gameId t)) new =
        map (\<lambda>b. (userId b, ''win'', potentialWinning b, gid))
          (filter (\<lambda>b. betIsWinner u b \<and> wallets d (userId b) \<noteq> None) bs)"
    unfolding dom1 by blast
  show ?case
    using n m processBet_transactions[OF step] by auto
qed

lemma settleBets_others:
  "games (leftBehind (settleBets gid u bs (acc, d))) = games d \<and>
   gameResults (leftBehind (settleBets gid u bs (acc, d))) = gameResults d \<and>
   users (leftBehind (settleBets gid u bs (acc, d))) = users d"
proof (induction bs arbitrary: acc d)
  case Nil
  then show ?case by (simp add: leftBehind_def)
next
  case (Cons b bs)
  show ?case
  proof (cases "processBet gid u b (acc, d)")
    case None
    then show ?thesis by (simp add: leftBehind_def)
  next
    case (Some s1)
    obtain acc1 d1 where s1: "s1 = (acc1, d1)" by (cases s1)
    show ?thesis
      using Cons.IH[of acc1 d1] processBet_others[OF Some[unfolded s1]] Some s1 by simp
  qed
qed

lemma settleBets_dom:
  "settleBets gid u bs (acc, d) = Inr (acc', d') \<Longrightarrow>
     dom (acc_betDistribution acc') = dom (acc_betDistribution acc)"
proof (induction bs arbitrary: acc d)
  case Nil
  then show ?case by simp
next
  case (Cons b bs)
  from Cons.prems obtain acc1 d1 where
    step: "processBet gid u b (acc, d) = Some (acc1, d1)" and
    rest: "settleBets gid u bs (acc1, d1) = Inr (acc', d')"
    by (rule settleBets_Cons_Inr)
  show ?case
    using Cons.IH[OF rest] processBet_dom[OF step] by simp
qed



lemma foldl_js_sum: "foldl (\<lambda>sum b. js_add sum (f b)) 0 bs = js_sum (map f bs)"
  by (simp add: js_sum_def foldl_map)

lemma find_replaceFirst:
  "find P xs = Some x \<Longrightarrow> P y \<Longrightarrow> find P (replaceFirst P y xs) = Some y"
  by (induction xs) (auto split: if_splits)

lemma replaceFirst_mem: "find P xs = Some x \<Longrightarrow> y \<in> set (replaceFirst P y xs)"
  by (induction xs) (auto split: if_splits)

lemma find_append_new: "find P xs = None \<Longrightarrow> P y \<Longrightarrow> find P (xs @ [y]) = Some y"
  by (induction xs) (auto split: if_splits)

lemma find_Some_P: "find P xs = Some x \<Longrightarrow> P x"
  by (induction xs) (auto split: if_splits)

text \<open>What a successful run of declareResult is made of.\<close>

lemma declareResult_success:
  assumes "declareResult d today adminUser gid body = (Inr sm, d')"
  shows "\<exists>g acc d1.
     games d gid = Some g \<and>
     settleBets gid (unifiedWinningNumber g body) (pendingBets gid d)
        (\<lparr>acc_totalWinningAmount = 0, acc_betDistribution = betDistribution0\<rparr>, d) = Inr (acc, d1) \<and>
     bets d' = bets d1 \<and> wallets d' = wallets d1 \<and> transactions d' = transactions d1 \<and>
     users d' = users d1 \<and>
     games d' = (games d1)(gid \<mapsto> g\<lparr>currentStatus := ResultDeclared\<rparr>) \<and>
     totalBetAmount (s_gameResult sm) = js_sum (map betAmount (pendingBets gid d)) \<and>
     totalWinningAmount (s_gameResult sm) = acc_totalWinningAmount acc \<and>
     platformCommission (s_gameResult sm) =
        js_mul (js_sum (map betAmount (pendingBets gid d))) (js_div (commission g) 100) \<and>
     netProfit (s_gameResult sm) =
        js_sub (js_sub (js_sum (map betAmount (pendingBets gid d))) (acc_totalWinningAmount acc))
          (js_mul (js_sum (map betAmount (pendingBets gid d))) (js_div (commission g) 100)) \<and>
     gr_totalBets (s_gameResult sm) = length (pendingBets gid d) \<and>
     betsProcessed sm = length (pendingBets gid d) \<and>
     s_totalWinningAmount sm = acc_totalWinningAmount acc \<and>
     s_netProfit sm = netProfit (s_gameResult sm) \<and>
     gr_status (s_gameResult sm) = Declared \<and>
     sameDay gid today (s_gameResult sm) \<and>
     gameResults d' =
       (case find (sameDay gid today) (gameResults d1) of
          Some r \<Rightarrow> replaceFirst (sameDay gid today) (s_gameResult sm) (gameResults d1)
        | None \<Rightarrow> gameResults d1 @ [s_gameResult sm])"
proof -
  from assms obtain g where g: "games d gid = Some g"
    by (auto simp: declareResult_def split: option.splits)
  let ?ex = "find (sameDay gid today) (gameResults d)"
  let ?s0 = "(\<lparr>acc_totalWinningAmount = 0, acc_betDistribution = betDistribution0\<rparr>, d)"
  let ?r = "settleBets gid (unifiedWinningNumber g body) (pendingBets gid d) ?s0"
  from assms g have nd: "\<not> (case ?ex of Some r \<Rightarrow> gr_status r = Declared | None \<Rightarrow> False)"
    by (auto simp: declareResult_def Let_def split: if_splits)
  from assms g nd obtain acc d1 where r: "?r = Inr (acc, d1)"
    by (auto simp: declareResult_def Let_def split: sum.splits)
  have gr1: "gameResults d1 = gameResults d"
    using settleBets_others[of gid "unifiedWinningNumber g body" "pendingBets gid d"
            "\<lparr>acc_totalWinningAmount = 0, acc_betDistribution = betDistribution0\<rparr>" d]
    unfolding r by (simp add: leftBehind_def)
  let ?tb = "js_sum (map betAmount (pendingBets gid d))"
  let ?pc = "js_mul ?tb (js_div (commission g) 100)"
  let ?np = "js_sub (js_sub ?tb (acc_totalWinningAmount acc)) ?pc"
  let ?g0 = "case ?ex of Some r \<Rightarrow> r | None \<Rightarrow> newGameResult gid today"
  let ?gr = "setStatistics (length (pendingBets gid d)) ?tb (acc_totalWinningAmount acc)
               (?pc)
               (?np)
               (acc_betDistribution acc) adminUser (setResultField g body ?g0)"
  have run: "declareResult d today adminUser gid body =
      (Inr \<lparr>s_gameResult = ?gr,
            winnersCount =
              d_winningBets (the (acc_betDistribution acc ''jodi'')) +
              d_winningBets (the (acc_betDistribution acc ''haruf'')) +
              d_winningBets (the (acc_betDistribution acc ''crossing'')),
            s_totalWinningAmount = acc_totalWinningAmount acc,
            s_netProfit = ?np,
            betsProcessed = length (pendingBets gid d)\<rparr>,
       d1\<lparr>gameResults :=
             (case ?ex of
                Some r \<Rightarrow> replaceFirst (sameDay gid today) ?gr (gameResults d1)
              | None \<Rightarrow> gameResults d1 @ [?gr]),
          games := (games d1)(gid \<mapsto> g\<lparr>currentStatus := ResultDeclared\<rparr>)\<rparr>)"
    using g nd r by (simp add: declareResult_def Let_def foldl_js_sum)
  have sm: "s_gameResult sm = ?gr" and
       bp: "betsProcessed sm = length (pendingBets gid d)" and
       stw: "s_totalWinningAmount sm = acc_totalWinningAmount acc" and
       snp: "s_netProfit sm = ?np" and
       d': "d' = d1\<lparr>gameResults :=
             (case ?ex of
                Some r \<Rightarrow> replaceFirst (sameDay gid today) ?gr (gameResults d1)
              | None \<Rightarrow> gameResults d1 @ [?gr]),
          games := (games d1)(gid \<mapsto> g\<lparr>currentStatus := ResultDeclared\<rparr>)\<rparr>"
    using assms unfolding run by auto
  have g0: "sameDay gid today ?g0"
    by (cases ?ex) (auto simp: newGameResult_def sameDay_def dest: find_Some_P)
  have sd: "sameDay gid today ?gr"
    using g0 by (simp add: sameDay_def setStatistics_def setResultField_def)
  have f: "totalBetAmount ?gr = ?tb" "totalWinningAmount ?gr = acc_totalWinningAmount acc"
     "platformCommission ?gr = ?pc"
     "netProfit ?gr = ?np"
     "gr_totalBets ?gr = length (pendingBets gid d)" "gr_status ?gr = Declared"
    by (simp_all add: setStatistics_def)
  have a: "games d gid = Some g \<and> ?r = Inr (acc, d1)" using g r by simp
  have b: "bets d' = bets d1 \<and> wallets d' = wallets d1 \<and> transactions d' = transactions d1 \<and>
     users d' = users d1 \<and> games d' = (games d1)(gid \<mapsto> g\<lparr>currentStatus := ResultDeclared\<rparr>)"
    by (simp add: d')
  have c: "gameResults d' =
       (case find (sameDay gid today) (gameResults d1) of
          Some r \<Rightarrow> replaceFirst (sameDay gid today) (s_gameResult sm) (gameResults d1)
        | None \<Rightarrow> gameResults d1 @ [s_gameResult sm])"
    unfolding sm d' by (simp add: gr1)
  show ?thesis
    apply (rule exI[of _ g], rule exI[of _ acc], rule exI[of _ d1])
    using a b c sd bp stw snp f unfolding sm by simp
qed


lemmas ex_defs = exDb_def exBody_def exBet_def exGame_def exWallet_def
lemmas run_defs = declareResult_def pendingBets_def processBet_def betIsWinner_def
  unifiedWinningNumber_def truthy_def saveBet_def betDistribution0_def dist0_def sameDay_def
  newGameResult_def setResultField_def setStatistics_def Let_def

lemma exDb_run:
  "declareResult exDb 0 (Some 1) 3 exBody =
     (Inr (exSummary),
      exDb\<lparr>bets := [exBet\<lparr>isWinner := Some True, winningAmount := Some 950, actualPayout := Some 950,
                         status := Won, winningTransactionId := Some 10\<rparr>,
                   exBet\<lparr>bet_id := 2, userId := 8, betNumber := ''21'', isWinner := Some True,
                         winningAmount := Some 950, actualPayout := Some 950, status := Won\<rparr>,
                   exBet\<lparr>bet_id := 3, betNumber := ''45'', isWinner := Some False, status := Lost\<rparr>],
           wallets := [7 \<mapsto> exWallet\<lparr>winningBalance := 950, totalWinnings := 950\<rparr>],
           transactions := [\<lparr>txn_id = 10, txn_userId = 7, txn_type = ''win'', txn_amount = 950,
                             txn_gameId = 3\<rparr>],
           nextId := 11,
           gameResults := [s_gameResult exSummary],
           games := [3 \<mapsto> exGame\<lparr>gtype := Crossing, currentStatus := ResultDeclared\<rparr>]\<rparr>)"
  by (simp add: ex_defs run_defs exSummary_def numeral_3_eq_3 numeral_2_eq_2 js_values
        js_commission_5)

lemma settleBets_bets_any:
  "list_all2 (\<lambda>x x'. x' = x \<or> (\<exists>b \<in> set bs. bet_id b = bet_id x \<and> settledAs u b x'))
     (bets d) (bets (leftBehind (settleBets gid u bs (acc, d))))"
proof (induction bs arbitrary: acc d)
  case Nil
  then show ?case by (simp add: leftBehind_def list_all2_same)
next
  case (Cons b bs)
  show ?case
  proof (cases "processBet gid u b (acc, d)")
    case None
    then show ?thesis by (simp add: leftBehind_def list_all2_same)
  next
    case (Some s1)
    obtain acc1 d1 where s1: "s1 = (acc1, d1)" by (cases s1)
    note step = Some[unfolded s1]
    let ?f = "\<lambda>x. if bet_id x = bet_id b then savedDoc u d b else x"
    have b1: "bets d1 = map ?f (bets d)"
      using processBet_bets[OF step] .
    have eq: "settleBets gid u (b # bs) (acc, d) = settleBets gid u bs (acc1, d1)"
      using step by simp
    have ih: "list_all2 (\<lambda>x x'. x' = ?f x \<or> (\<exists>b \<in> set bs. bet_id b = bet_id (?f x) \<and> settledAs u b x'))
        (bets d) (bets (leftBehind (settleBets gid u bs (acc1, d1))))"
      using Cons.IH[where acc=acc1 and d=d1] unfolding b1 by (simp add: list_all2_map1)
    have sd: "settledAs u b (savedDoc u d b)" by (rule savedDoc_settledAs)
    have id: "bet_id (savedDoc u d b) = bet_id b" using sd by (rule settledAs_bet_id)
    have mono: "x' = ?f x \<or> (\<exists>c \<in> set bs. bet_id c = bet_id (?f x) \<and> settledAs u c x') \<Longrightarrow>
        x' = x \<or> (\<exists>c \<in> set (b # bs). bet_id c = bet_id x \<and> settledAs u c x')" for x x'
      using sd id by (cases "bet_id x = bet_id b") auto
    show ?thesis
      unfolding eq by (rule list_all2_mono[OF ih]) (rule mono)
  qed
qed

lemma settleBets_wallets_dom:
  "(wallets (leftBehind (settleBets gid u bs (acc, d))) uid = None) = (wallets d uid = None)"
proof (induction bs arbitrary: acc d)
  case Nil
  then show ?case by (simp add: leftBehind_def)
next
  case (Cons b bs)
  show ?case
  proof (cases "processBet gid u b (acc, d)")
    case None
    then show ?thesis by (simp add: leftBehind_def)
  next
    case (Some s1)
    obtain acc1 d1 where s1: "s1 = (acc1, d1)" by (cases s1)
    note step = Some[unfolded s1]
    have dom1: "(wallets d1 uid = None) = (wallets d uid = None)"
      unfolding processBet_wallets[OF step] by (auto split: option.splits)
    show ?thesis
      using Cons.IH[where acc=acc1 and d=d1] step dom1 by simp
  qed
qed

text \<open>With unique identifiers, the fetched document with the identifier of a stored bet is that bet.\<close>

lemma distinct_bet_id:
  "distinct (map bet_id xs) \<Longrightarrow> x \<in> set xs \<Longrightarrow> b \<in> set xs \<Longrightarrow> bet_id b = bet_id x \<Longrightarrow> b = x"
  by (meson distinct_map inj_onD)

lemma pendingBets_set:
  "set (pendingBets gid d) = {b \<in> set (bets d). gameId b = gid \<and> status b = Pending}"
  by (auto simp: pendingBets_def)

lemma list_all2_mono_set:
  "list_all2 P xs ys \<Longrightarrow> (\<And>x y. x \<in> set xs \<Longrightarrow> P x y \<Longrightarrow> Q x y) \<Longrightarrow> list_all2 Q xs ys"
  by (induction rule: list_all2_induct) auto

lemma pending_relation_any:
  assumes "distinct (map bet_id (bets d))"
  shows "list_all2
     (\<lambda>x x'. x' = x \<or> (gameId x = gid \<and> status x = Pending \<and> (status x' = Won \<or> status x' = Lost)))
     (bets d) (bets (leftBehind (settleBets gid u (pendingBets gid d) (acc, d))))"
proof (rule list_all2_mono_set[OF settleBets_bets_any])
  fix x x'
  assume x: "x \<in> set (bets d)"
    and a: "x' = x \<or> (\<exists>b \<in> set (pendingBets gid d). bet_id b = bet_id x \<and> settledAs u b x')"
  show "x' = x \<or> (gameId x = gid \<and> status x = Pending \<and> (status x' = Won \<or> status x' = Lost))"
  proof (cases "x' = x")
    case True
    then show ?thesis by simp
  next
    case False
    with a obtain b where b: "b \<in> set (pendingBets gid d)" "bet_id b = bet_id x" "settledAs u b x'"
      by blast
    have "b = x"
      using distinct_bet_id[OF assms x _ b(2)] b(1) by (simp add: pendingBets_set)
    with b show ?thesis by (auto simp: pendingBets_set settledAs_def split: if_splits)
  qed
qed

lemma pending_relation_success:
  assumes "distinct (map bet_id (bets d))"
    and "settleBets gid u (pendingBets gid d) (acc, d) = Inr (acc', d')"
  shows "list_all2
     (\<lambda>x x'. if gameId x = gid \<and> status x = Pending then settledAs u x x' else x' = x)
     (bets d) (bets d')"
proof (rule list_all2_mono_set[OF settleBets_bets[OF assms(2)]])
  fix x x'
  assume x: "x \<in> set (bets d)"
    and a: "if bet_id x \<in> bet_id ` set (pendingBets gid d)
            then \<exists>b \<in> set (pendingBets gid d). bet_id b = bet_id x \<and> settledAs u b x'
            else x' = x"
  show "if gameId x = gid \<and> status x = Pending then settledAs u x x' else x' = x"
  proof (cases "gameId x = gid \<and> status x = Pending")
    case True
    then have xin: "x \<in> set (pendingBets gid d)" using x by (simp add: pendingBets_set)
    then have "bet_id x \<in> bet_id ` set (pendingBets gid d)" by blast
    with a obtain b where b: "b \<in> set (pendingBets gid d)" "bet_id b = bet_id x" "settledAs u b x'"
      by auto
    have "b = x"
      using distinct_bet_id[OF assms(1) x _ b(2)] b(1) by (simp add: pendingBets_set)
    with b True show ?thesis by simp
  next
    case False
    have "bet_id x \<notin> bet_id ` set (pendingBets gid d)"
    proof
      assume "bet_id x \<in> bet_id ` set (pendingBets gid d)"
      then obtain b where b: "b \<in> set (pendingBets gid d)" "bet_id b = bet_id x" by auto
      have "b = x"
        using distinct_bet_id[OF assms(1) x _ b(2)] b(1) by (simp add: pendingBets_set)
      with b(1) False show False by (simp add: pendingBets_set)
    qed
    with a False show ?thesis by auto
  qed
qed

lemma no_pending_after:
  assumes "list_all2
     (\<lambda>x x'. if gameId x = gid \<and> status x = Pending then settledAs u x x' else x' = x) xs ys"
  shows "filter (\<lambda>b. gameId b = gid \<and> status b = Pending) ys = []"
  using assms
  by (induction rule: list_all2_induct) (auto simp: settledAs_def split: if_splits)

text \<open>The outcome of declareResult, whatever it is, as far as bets, wallets and ledger go.\<close>

lemma declareResult_any:
  "(bets (snd (declareResult d today adminUser gid body)) = bets d \<and>
    wallets (snd (declareResult d today adminUser gid body)) = wallets d \<and>
    transactions (snd (declareResult d today adminUser gid body)) = transactions d) \<or>
   (\<exists>g r. games d gid = Some g \<and>
      r = settleBets gid (unifiedWinningNumber g body) (pendingBets gid d)
            (\<lparr>acc_totalWinningAmount = 0, acc_betDistribution = betDistribution0\<rparr>, d) \<and>
      bets (snd (declareResult d today adminUser gid body)) = bets (leftBehind r) \<and>
      wallets (snd (declareResult d today adminUser gid body)) = wallets (leftBehind r) \<and>
      transactions (snd (declareResult d today adminUser gid body)) = transactions (leftBehind r))"
proof (cases "declareResult d today adminUser gid body")
  case (Pair res d')
  show ?thesis
  proof (cases res)
    case (Inr sm)
    from declareResult_success[OF Pair[unfolded Inr]] show ?thesis
      unfolding Pair by (auto simp: leftBehind_def)
  next
    case (Inl e)
    show ?thesis
      using Pair[unfolded Inl]
      by (auto simp: declareResult_def Let_def leftBehind_def split: option.splits if_splits sum.splits)
  qed
qed

lemma declareResult_nothing_pending:
  assumes "pendingBets gid d = []"
  shows "bets (snd (declareResult d today adminUser gid body)) = bets d \<and>
         wallets (snd (declareResult d today adminUser gid body)) = wallets d \<and>
         transactions (snd (declareResult d today adminUser gid body)) = transactions d"
  using declareResult_any[of d today adminUser gid body] assms
  by (auto simp: leftBehind_def)


lemma list_all2_witness:
  "list_all2 R xs ys \<Longrightarrow> x \<in> set xs \<Longrightarrow> \<exists>y \<in> set ys. R x y"
  by (induction rule: list_all2_induct) auto


lemma map_filter_related:
  assumes "list_all2 R xs ys"
    and "\<And>x y. x \<in> set xs \<Longrightarrow> R x y \<Longrightarrow> Q y = P x \<and> (P x \<longrightarrow> f' y = f x)"
  shows "map f' (filter Q ys) = map f (filter P xs)"
  using assms
proof (induction rule: list_all2_induct)
  case Nil
  then show ?case by simp
next
  case (Cons x xs y ys)
  have h: "Q y = P x \<and> (P x \<longrightarrow> f' y = f x)" using Cons.prems[of x y] Cons.hyps(1) by simp
  have ih: "map f' (filter Q ys) = map f (filter P xs)"
    using Cons.IH Cons.prems by simp
  show ?case using h ih by auto
qed

lemma stored_winnings:
  assumes "distinct (map bet_id (bets d))"
    and "settleBets gid u (pendingBets gid d) (acc, d) = Inr (acc', d')"
  shows "map (\<lambda>x. the (winningAmount x))
           (filter (\<lambda>x. bet_id x \<in> bet_id ` set (pendingBets gid d) \<and> status x = Won) (bets d')) =
         map potentialWinning (filter (betIsWinner u) (pendingBets gid d))"
proof -
  let ?R = "\<lambda>x x'. if gameId x = gid \<and> status x = Pending then settledAs u x x' else x' = x"
  let ?P = "\<lambda>x. (gameId x = gid \<and> status x = Pending) \<and> betIsWinner u x"
  have rel: "list_all2 ?R (bets d) (bets d')"
    by (rule pending_relation_success[OF assms])
  have step: "(bet_id y \<in> bet_id ` set (pendingBets gid d) \<and> status y = Won) = ?P x \<and>
      (?P x \<longrightarrow> the (winningAmount y) = potentialWinning x)"
    if x: "x \<in> set (bets d)" and r: "?R x y" for x y
  proof (cases "gameId x = gid \<and> status x = Pending")
    case True
    then have "x \<in> set (pendingBets gid d)" using x by (simp add: pendingBets_set)
    then have "bet_id x \<in> bet_id ` set (pendingBets gid d)" by blast
    with True r show ?thesis by (auto simp: settledAs_def split: if_splits)
  next
    case False
    with r have yx: "y = x" by simp
    have "bet_id x \<notin> bet_id ` set (pendingBets gid d)"
    proof
      assume "bet_id x \<in> bet_id ` set (pendingBets gid d)"
      then obtain b where b: "b \<in> set (pendingBets gid d)" "bet_id b = bet_id x" by auto
      have "b = x"
        using distinct_bet_id[OF assms(1) x _ b(2)] b(1) by (simp add: pendingBets_set)
      with b(1) False show False by (simp add: pendingBets_set)
    qed
    with False yx show ?thesis by auto
  qed
  have "map (\<lambda>x. the (winningAmount x))
           (filter (\<lambda>x. bet_id x \<in> bet_id ` set (pendingBets gid d) \<and> status x = Won) (bets d')) =
        map potentialWinning (filter ?P (bets d))"
    by (rule map_filter_related[OF rel]) (rule step)
  also have "filter ?P (bets d) = filter (betIsWinner u) (pendingBets gid d)"
    by (simp add: pendingBets_def conj_commute)
  finally show ?thesis .
qed


section \<open>The win checks\<close>

lemma crossingOutcomes_iff:
  "(n \<in> set (crossingOutcomes ds)) =
     (\<exists>i < length ds. \<exists>j < length ds. i \<noteq> j \<and> n = [ds ! i, ds ! j])"
proof -
  have "(n \<in> set (crossingOutcomes ds)) =
      (\<exists>i \<in> {0..<length ds}. \<exists>j \<in> {0..<length ds}. i \<noteq> j \<and> n = [ds ! i, ds ! j])"
    by (simp add: crossingOutcomes_def) blast
  also have "\<dots> = (\<exists>i < length ds. \<exists>j < length ds. i \<noteq> j \<and> n = [ds ! i, ds ! j])"
    by (simp add: Bex_def)
  finally show ?thesis .
qed

lemma toLowerCase_crossing_simps:
  "toLowerCase ''crossing'' = ''crossing''" "toLowerCase ''haruf'' = ''haruf''"
  "toLowerCase ''jodi'' = ''jodi''"
  by (simp_all add: toLowerCase_def)

lemma checkBetWinning_crossing:
  "toLowerCase (betType b) = ''crossing'' \<Longrightarrow>
     checkBetWinning b r = (betNumber b \<in> set (crossingOutcomes (crossing r)))"
  by (simp add: checkBetWinning_def)

lemma betIsWinner_crossing:
  "betType b = ''crossing'' \<Longrightarrow>
     betIsWinner (Some w) b =
       (betNumber b = w \<or> (2 \<le> length w \<and> length (betNumber b) = 2 \<and> set (betNumber b) \<subseteq> set w))"
  by (auto simp: betIsWinner_def truthy_def list_all_iff Let_def)


text \<open>
  Claim C1, as the code has it. In results.ts (checkBetWinning, second version) a crossing bet
  wins iff its number is digit[i] + digit[j] for two distinct positions i, j of the declared
  crossing result. In games.ts (declareResult) a crossing bet wins iff its number equals the
  winning number, or the winning number has at least two characters, the bet number has
  exactly two, and each of the two occurs in the winning number.
\<close>

theorem crossing_win_rules:
  "(toLowerCase (betType b) = ''crossing'' \<longrightarrow>
      checkBetWinning b r =
        (\<exists>i < length (crossing r). \<exists>j < length (crossing r).
            i \<noteq> j \<and> betNumber b = [crossing r ! i, crossing r ! j])) \<and>
   (betType b = ''crossing'' \<longrightarrow>
      betIsWinner (Some w) b =
        (betNumber b = w \<or>
         (2 \<le> length w \<and> length (betNumber b) = 2 \<and> set (betNumber b) \<subseteq> set w)))"
  using checkBetWinning_crossing[of b r] crossingOutcomes_iff[of "betNumber b" "crossing r"]
    betIsWinner_crossing[of b w]
  by blast

lemma ex_outcomes: "crossingOutcomes ''123'' = [''12'', ''13'', ''21'', ''23'', ''31'', ''32'']"
  by (simp add: crossingOutcomes_def upt_rec)

theorem crossing_win_rules_witness:
  "checkBetWinning exBet exResults \<and>
   checkBetWinning (exBet\<lparr>betNumber := ''21''\<rparr>) exResults \<and>
   \<not> checkBetWinning (exBet\<lparr>betNumber := ''11''\<rparr>) exResults \<and>
   betIsWinner (Some ''123'') exBet \<and>
   betIsWinner (Some ''123'') (exBet\<lparr>betNumber := ''21''\<rparr>)"
proof -
  have t: "toLowerCase (betType exBet) = ''crossing''"
      "toLowerCase (betType (exBet\<lparr>betNumber := ''21''\<rparr>)) = ''crossing''"
      "toLowerCase (betType (exBet\<lparr>betNumber := ''11''\<rparr>)) = ''crossing''"
    by (simp_all add: exBet_def toLowerCase_crossing_simps)
  have u: "betType exBet = ''crossing''" "betType (exBet\<lparr>betNumber := ''21''\<rparr>) = ''crossing''"
    by (simp_all add: exBet_def)
  have o: "\<And>n. (\<exists>i < length ''123''. \<exists>j < length ''123''. i \<noteq> j \<and> n = [''123'' ! i, ''123'' ! j]) =
      (n \<in> set [''12'', ''13'', ''21'', ''23'', ''31'', ''32''])"
    using crossingOutcomes_iff[of _ "''123''"] ex_outcomes by simp
  have c: "crossing exResults = ''123''" by (simp add: exResults_def)
  from crossing_win_rules[of exBet exResults "''123''"]
       crossing_win_rules[of "exBet\<lparr>betNumber := ''21''\<rparr>" exResults "''123''"]
       crossing_win_rules[of "exBet\<lparr>betNumber := ''11''\<rparr>" exResults "''123''"]
  show ?thesis
    unfolding c o using t u by (simp add: exBet_def)
qed


text \<open>
  Against the declared result 123 the bet 11 is no ordered pair of distinct positions, and
  the check of games.ts marks it a winner: both of its digits occur in 123.
\<close>

theorem crossing_subset_counterexample:
  "betType (exBet\<lparr>betNumber := ''11''\<rparr>) = ''crossing'' \<and>
   status (exBet\<lparr>betNumber := ''11''\<rparr>) = Pending \<and>
   betIsWinner (Some ''123'') (exBet\<lparr>betNumber := ''11''\<rparr>) \<and>
   ''11'' \<notin> set (crossingOutcomes ''123'') \<and>
   map status (bets (snd (declareResult elevenDb 0 (Some 1) 3 exBody))) = [Won] \<and>
   map winningAmount (bets (snd (declareResult elevenDb 0 (Some 1) 3 exBody))) = [Some 950]"
  by (simp add: elevenDb_def ex_defs run_defs ex_outcomes)

lemma str_includes_single: "str_includes w [c] = (c \<in> set w)"
  by (induction w) auto

lemma checkBetWinning_haruf_tagged:
  assumes "toLowerCase (betType b) = ''haruf''" and "haruf r \<noteq> []"
    and "harufDigit (betData b) = Some dg" and "dg \<noteq> []"
    and "harufPosition (betData b) = Some p" and "p \<noteq> []"
  shows "checkBetWinning b r =
           (if p = ''first'' \<or> p = ''andhar'' then dg = [hd (haruf r)]
            else if p = ''last'' \<or> p = ''bahar'' then dg = [last (haruf r)]
            else False)"
  using assms by (simp add: checkBetWinning_def or_empty_def Let_def)

lemma checkBetWinning_haruf_untagged:
  assumes "toLowerCase (betType b) = ''haruf''"
    and "harufPosition (betData b) = None \<or> harufPosition (betData b) = Some []"
    and "legacyMatch (betNumber b) = None"
  shows "\<not> checkBetWinning b r"
  using assms by (auto simp add: checkBetWinning_def or_empty_def Let_def)

lemma betIsWinner_haruf:
  assumes "betType b = ''haruf''"
  shows "betIsWinner (Some w) b =
           (if harufPosition (betData b) = Some ''first'' then betNumber b = charAt w 0
            else if harufPosition (betData b) = Some ''last'' then betNumber b = charAt w 1
            else str_includes w (betNumber b))"
  using assms by (simp add: betIsWinner_def)

lemma checkBetWinning_single_haruf:
  assumes "betType b = ''haruf''"
  shows "checkBetWinning_single b w =
           (if top_harufPosition b = Some ''first'' \<or> top_harufPosition b = Some ''start''
            then charAt w 0 = betNumber b
            else if top_harufPosition b = Some ''last'' \<or> top_harufPosition b = Some ''end''
            then charAt w (int (length w) - 1) = betNumber b
            else str_includes w (betNumber b))"
  using assms by (simp add: checkBetWinning_single_def)

lemma charAt_first: "w \<noteq> [] \<Longrightarrow> charAt w 0 = [hd w]"
  by (cases w) (simp_all add: charAt_def)

lemma charAt_last: "w \<noteq> [] \<Longrightarrow> charAt w (int (length w) - 1) = [last w]"
  by (simp add: charAt_def last_conv_nth nat_diff_distrib' of_nat_diff)

lemma charAt_second: "length w = 2 \<Longrightarrow> charAt w 1 = [last w]"
  by (cases w; cases "tl w") (auto simp: charAt_def)


text \<open>
  Claim C2, as the code has it. results.ts, second version: for a haruf bet with a digit and
  a position in its bet data and a non-empty haruf result, position first or andhar wins iff
  the digit is the first character of the result, position last or bahar wins iff it is the
  last character; a haruf bet without position (and without a legacy bet number A<digit> or
  B<digit>) loses. games.ts: position first wins iff the bet number is the first character;
  position last, for a result of two characters, wins iff the bet number is the last
  character; every other or missing position (andhar and bahar too) wins iff the result
  contains the bet number. results.ts, first version: position first or start, last or end
  as the first and last character; without position, wins iff the result contains the bet
  number.
\<close>

theorem haruf_win_rules:
  "(toLowerCase (betType b) = ''haruf'' \<and> haruf r \<noteq> [] \<and>
    harufDigit (betData b) = Some dg \<and> dg \<noteq> [] \<and> harufPosition (betData b) = Some p \<longrightarrow>
      (p = ''first'' \<or> p = ''andhar'' \<longrightarrow> checkBetWinning b r = (dg = [hd (haruf r)])) \<and>
      (p = ''last'' \<or> p = ''bahar'' \<longrightarrow> checkBetWinning b r = (dg = [last (haruf r)]))) \<and>
   (toLowerCase (betType b) = ''haruf'' \<and> harufPosition (betData b) = None \<and>
    legacyMatch (betNumber b) = None \<longrightarrow> \<not> checkBetWinning b r) \<and>
   (betType b = ''haruf'' \<and> w \<noteq> [] \<longrightarrow>
      (harufPosition (betData b) = Some ''first'' \<longrightarrow>
         betIsWinner (Some w) b = (betNumber b = [hd w])) \<and>
      (harufPosition (betData b) = Some ''last'' \<and> length w = 2 \<longrightarrow>
         betIsWinner (Some w) b = (betNumber b = [last w])) \<and>
      (harufPosition (betData b) \<noteq> Some ''first'' \<and> harufPosition (betData b) \<noteq> Some ''last'' \<longrightarrow>
         betIsWinner (Some w) b = str_includes w (betNumber b) \<and>
         (\<forall>c. betNumber b = [c] \<longrightarrow> betIsWinner (Some w) b = (c \<in> set w)))) \<and>
   (betType b = ''haruf'' \<and> w \<noteq> [] \<longrightarrow>
      (top_harufPosition b = Some ''first'' \<or> top_harufPosition b = Some ''start'' \<longrightarrow>
         checkBetWinning_single b w = (betNumber b = [hd w])) \<and>
      (top_harufPosition b = Some ''last'' \<or> top_harufPosition b = Some ''end'' \<longrightarrow>
         checkBetWinning_single b w = (betNumber b = [last w])) \<and>
      (top_harufPosition b = None \<longrightarrow>
         checkBetWinning_single b w = str_includes w (betNumber b) \<and>
         (\<forall>c. betNumber b = [c] \<longrightarrow> checkBetWinning_single b w = (c \<in> set w))))"
proof -
  have v2: "toLowerCase (betType b) = ''haruf'' \<and> haruf r \<noteq> [] \<and>
    harufDigit (betData b) = Some dg \<and> dg \<noteq> [] \<and> harufPosition (betData b) = Some p \<longrightarrow>
      (p = ''first'' \<or> p = ''andhar'' \<longrightarrow> checkBetWinning b r = (dg = [hd (haruf r)])) \<and>
      (p = ''last'' \<or> p = ''bahar'' \<longrightarrow> checkBetWinning b r = (dg = [last (haruf r)]))"
    using checkBetWinning_haruf_tagged[of b r dg p] by auto
  have v2n: "toLowerCase (betType b) = ''haruf'' \<and> harufPosition (betData b) = None \<and>
    legacyMatch (betNumber b) = None \<longrightarrow> \<not> checkBetWinning b r"
    using checkBetWinning_haruf_untagged[of b r] by blast
  have g: "betType b = ''haruf'' \<and> w \<noteq> [] \<longrightarrow>
      (harufPosition (betData b) = Some ''first'' \<longrightarrow>
         betIsWinner (Some w) b = (betNumber b = [hd w])) \<and>
      (harufPosition (betData b) = Some ''last'' \<and> length w = 2 \<longrightarrow>
         betIsWinner (Some w) b = (betNumber b = [last w])) \<and>
      (harufPosition (betData b) \<noteq> Some ''first'' \<and> harufPosition (betData b) \<noteq> Some ''last'' \<longrightarrow>
         betIsWinner (Some w) b = str_includes w (betNumber b) \<and>
         (\<forall>c. betNumber b = [c] \<longrightarrow> betIsWinner (Some w) b = (c \<in> set w)))"
    by (simp add: betIsWinner_haruf charAt_first charAt_second str_includes_single)
  have v1: "betType b = ''haruf'' \<and> w \<noteq> [] \<longrightarrow>
      (top_harufPosition b = Some ''first'' \<or> top_harufPosition b = Some ''start'' \<longrightarrow>
         checkBetWinning_single b w = (betNumber b = [hd w])) \<and>
      (top_harufPosition b = Some ''last'' \<or> top_harufPosition b = Some ''end'' \<longrightarrow>
         checkBetWinning_single b w = (betNumber b = [last w])) \<and>
      (top_harufPosition b = None \<longrightarrow>
         checkBetWinning_single b w = str_includes w (betNumber b) \<and>
         (\<forall>c. betNumber b = [c] \<longrightarrow> checkBetWinning_single b w = (c \<in> set w)))"
    by (auto simp add: checkBetWinning_single_haruf charAt_first charAt_last str_includes_single)
  from v2 v2n g v1 show ?thesis by blast
qed


theorem haruf_win_rules_witness:
  "checkBetWinning (harufBet\<lparr>betData := \<lparr>harufPosition = Some ''first'', harufDigit = Some ''1''\<rparr>\<rparr>) exResults \<and>
   \<not> checkBetWinning (harufBet\<lparr>betData := \<lparr>harufPosition = Some ''andhar'', harufDigit = Some ''4''\<rparr>\<rparr>) exResults \<and>
   checkBetWinning (harufBet\<lparr>betData := \<lparr>harufPosition = Some ''bahar'', harufDigit = Some ''4''\<rparr>\<rparr>) exResults \<and>
   \<not> checkBetWinning harufBet exResults \<and>
   \<not> betIsWinner (Some ''14'') (harufBet\<lparr>betData := \<lparr>harufPosition = Some ''first'', harufDigit = None\<rparr>\<rparr>) \<and>
   betIsWinner (Some ''14'') (harufBet\<lparr>betData := \<lparr>harufPosition = Some ''last'', harufDigit = None\<rparr>\<rparr>) \<and>
   betIsWinner (Some ''14'') harufBet \<and>
   checkBetWinning_single (harufBet\<lparr>top_harufPosition := Some ''end''\<rparr>) ''14'' \<and>
   checkBetWinning_single harufBet ''14''"
proof -
  have h: "haruf exResults = ''14''" by (simp add: exResults_def)
  have l: "legacyMatch ''4'' = None" by (simp add: legacyMatch_def)
  from haruf_win_rules[of "harufBet\<lparr>betData := \<lparr>harufPosition = Some ''first'', harufDigit = Some ''1''\<rparr>\<rparr>"
          exResults "''1''" "''first''" "''14''"]
       haruf_win_rules[of "harufBet\<lparr>betData := \<lparr>harufPosition = Some ''andhar'', harufDigit = Some ''4''\<rparr>\<rparr>"
          exResults "''4''" "''andhar''" "''14''"]
       haruf_win_rules[of "harufBet\<lparr>betData := \<lparr>harufPosition = Some ''bahar'', harufDigit = Some ''4''\<rparr>\<rparr>"
          exResults "''4''" "''bahar''" "''14''"]
       haruf_win_rules[of harufBet exResults "''4''" "''first''" "''14''"]
       haruf_win_rules[of "harufBet\<lparr>betData := \<lparr>harufPosition = Some ''first'', harufDigit = None\<rparr>\<rparr>"
          exResults "''4''" "''first''" "''14''"]
       haruf_win_rules[of "harufBet\<lparr>betData := \<lparr>harufPosition = Some ''last'', harufDigit = None\<rparr>\<rparr>"
          exResults "''4''" "''last''" "''14''"]
       haruf_win_rules[of "harufBet\<lparr>top_harufPosition := Some ''end''\<rparr>" exResults "''4''" "''first''" "''14''"]
  show ?thesis
    by (simp add: harufBet_def exBet_def h l toLowerCase_crossing_simps)
qed


text \<open>
  A haruf bet on 4 without position tag loses in results.ts although the result 14 contains
  4; in games.ts a bet on 4 tagged andhar wins against 14, whose first character is 1.
\<close>

theorem haruf_fallback_counterexample:
  "toLowerCase (betType harufBet) = ''haruf'' \<and> status harufBet = Pending \<and>
   harufPosition (betData harufBet) = None \<and> betNumber harufBet = ''4'' \<and>
   haruf exResults = ''14'' \<and> str_includes (haruf exResults) (betNumber harufBet) \<and>
   \<not> checkBetWinning harufBet exResults \<and>
   map isWinning (bets (snd (declare_route harufDb 3 harufBody))) = [Some False] \<and>
   betIsWinner (Some ''14'')
     (harufBet\<lparr>betData := \<lparr>harufPosition = Some ''andhar'', harufDigit = Some ''4''\<rparr>\<rparr>) \<and>
   [hd ''14''] \<noteq> ''4''"
  by (simp add: harufBet_def exBet_def exResults_def toLowerCase_crossing_simps
        checkBetWinning_def or_empty_def legacyMatch_def betIsWinner_def
        harufDb_def harufBody_def exDb_def exGame_def declare_route_def or_else_def truthy_def
        processBetsForResult_def updateBetResult_def trim_def isSpace_def Let_def)


section \<open>The settlement loop of results.ts\<close>

lemma processBetsLoop_Cons:
  "processBetsLoop r (b # bs) (p, d) =
     processBetsLoop r bs
       (if checkBetWinning b r
        then (p\<lparr>winningBets := winningBets p + 1,
                totalWinAmount := js_add (totalWinAmount p) (potentialWinning b)\<rparr>,
              creditUser (userId b) (potentialWinning b)
                (updateBetResult (bet_id b) True (fallback r) d))
        else (p\<lparr>losingBets := losingBets p + 1\<rparr>,
              updateBetResult (bet_id b) False (fallback r) d))"
  by (simp add: Let_def)

lemma processBetsLoop_step:
  obtains p1 d1 where
    "processBetsLoop r (b # bs) (p, d) = processBetsLoop r bs (p1, d1)"
    "bets d1 = map (\<lambda>x. if bet_id x = bet_id b
                          then x\<lparr>isWinning := Some (checkBetWinning b r), resultDeclared := True,
                                 bet_declaredResult := Some (fallback r)\<rparr>
                          else x) (bets d)"
    "users d1 = (if checkBetWinning b r
                 then (case users d (userId b) of
                         None \<Rightarrow> users d
                       | Some u \<Rightarrow> (users d)(userId b \<mapsto> creditUserDoc (potentialWinning b) u))
                 else users d)"
    "wallets d1 = wallets d" "transactions d1 = transactions d" "games d1 = games d"
    "gameResults d1 = gameResults d"
    "totalWinAmount p1 = (if checkBetWinning b r
                           then js_add (totalWinAmount p) (potentialWinning b)
                           else totalWinAmount p)"
    "winningBets p1 = winningBets p + (if checkBetWinning b r then 1 else 0)"
    "losingBets p1 = losingBets p + (if checkBetWinning b r then 0 else 1)"
    "p_totalBets p1 = p_totalBets p"
proof (cases "checkBetWinning b r")
  case True
  show ?thesis
    by (rule that[of "p\<lparr>winningBets := winningBets p + 1,
                       totalWinAmount := js_add (totalWinAmount p) (potentialWinning b)\<rparr>"
                    "creditUser (userId b) (potentialWinning b)
                       (updateBetResult (bet_id b) True (fallback r) d)"])
       (simp_all add: processBetsLoop_Cons True updateBetResult_def creditUser_def
          creditUserDoc_def split: option.splits)
next
  case False
  show ?thesis
    by (rule that[of "p\<lparr>losingBets := losingBets p + 1\<rparr>"
                    "updateBetResult (bet_id b) False (fallback r) d"])
       (simp_all add: processBetsLoop_Cons False updateBetResult_def)
qed

lemma processBetsLoop_others:
  "wallets (snd (processBetsLoop r bs (p, d))) = wallets d \<and>
   transactions (snd (processBetsLoop r bs (p, d))) = transactions d \<and>
   games (snd (processBetsLoop r bs (p, d))) = games d \<and>
   gameResults (snd (processBetsLoop r bs (p, d))) = gameResults d"
proof (induction bs arbitrary: p d)
  case Nil
  then show ?case by simp
next
  case (Cons b bs)
  obtain p1 d1 where
    s: "processBetsLoop r (b # bs) (p, d) = processBetsLoop r bs (p1, d1)" and
    o: "wallets d1 = wallets d" "transactions d1 = transactions d" "games d1 = games d"
       "gameResults d1 = gameResults d"
    by (rule processBetsLoop_step[of r b bs p d])
  show ?case unfolding s using Cons.IH[of p1 d1] o by simp
qed

lemma processBetsLoop_counts:
  "totalWinAmount (fst (processBetsLoop r bs (p, d))) =
     foldl js_add (totalWinAmount p) (map potentialWinning (filter (\<lambda>b. checkBetWinning b r) bs)) \<and>
   winningBets (fst (processBetsLoop r bs (p, d))) =
     winningBets p + length (filter (\<lambda>b. checkBetWinning b r) bs) \<and>
   losingBets (fst (processBetsLoop r bs (p, d))) =
     losingBets p + length (filter (\<lambda>b. \<not> checkBetWinning b r) bs) \<and>
   p_totalBets (fst (processBetsLoop r bs (p, d))) = p_totalBets p"
proof (induction bs arbitrary: p d)
  case Nil
  then show ?case by simp
next
  case (Cons b bs)
  obtain p1 d1 where
    s: "processBetsLoop r (b # bs) (p, d) = processBetsLoop r bs (p1, d1)" and
    c: "totalWinAmount p1 = (if checkBetWinning b r
                           then js_add (totalWinAmount p) (potentialWinning b)
                           else totalWinAmount p)"
    "winningBets p1 = winningBets p + (if checkBetWinning b r then 1 else 0)"
    "losingBets p1 = losingBets p + (if checkBetWinning b r then 0 else 1)"
    "p_totalBets p1 = p_totalBets p"
    by (rule processBetsLoop_step[of r b bs p d])
  show ?case unfolding s using Cons.IH[of p1 d1] c by simp
qed

text \<open>Each user receives the winnings of the winning bets, one credit after the other.\<close>

lemma processBetsLoop_users:
  "users (snd (processBetsLoop r bs (p, d))) uid =
     map_option
       (\<lambda>u. foldl (\<lambda>u b. creditUserDoc (potentialWinning b) u) u
              (filter (\<lambda>b. checkBetWinning b r \<and> userId b = uid) bs))
       (users d uid)"
proof (induction bs arbitrary: p d)
  case Nil
  then show ?case by (cases "users d uid") simp_all
next
  case (Cons b bs)
  obtain p1 d1 where
    s: "processBetsLoop r (b # bs) (p, d) = processBetsLoop r bs (p1, d1)" and
    u: "users d1 = (if checkBetWinning b r
                 then (case users d (userId b) of
                         None \<Rightarrow> users d
                       | Some u \<Rightarrow> (users d)(userId b \<mapsto> creditUserDoc (potentialWinning b) u))
                 else users d)"
    by (rule processBetsLoop_step[of r b bs p d])
  have u1: "users d1 uid =
      (if checkBetWinning b r \<and> userId b = uid
       then map_option (creditUserDoc (potentialWinning b)) (users d uid)
       else users d uid)"
    unfolding u by (auto split: option.splits)
  show ?case
    unfolding s Cons.IH[of p1 d1] u1
    by (cases "users d uid") simp_all
qed

text \<open>Every fetched bet is written once; the three result fields are all that changes.\<close>

lemma processBetsLoop_bets:
  "list_all2 (\<lambda>x x'. if bet_id x \<in> bet_id ` set bs
                      then (\<exists>b \<in> set bs. bet_id b = bet_id x \<and>
                              x' = x\<lparr>isWinning := Some (checkBetWinning b r), resultDeclared := True,
                                     bet_declaredResult := Some (fallback r)\<rparr>)
                      else x' = x)
     (bets d) (bets (snd (processBetsLoop r bs (p, d))))"
proof (induction bs arbitrary: p d)
  case Nil
  then show ?case by (simp add: list_all2_same)
next
  case (Cons b bs)
  let ?upd = "\<lambda>b x. x\<lparr>isWinning := Some (checkBetWinning b r), resultDeclared := True,
                        bet_declaredResult := Some (fallback r)\<rparr>"
  let ?f = "\<lambda>x. if bet_id x = bet_id b then ?upd b x else x"
  let ?R = "\<lambda>bs x x'. if bet_id x \<in> bet_id ` set bs
                        then (\<exists>b \<in> set bs. bet_id b = bet_id x \<and> x' = ?upd b x)
                        else x' = x"
  obtain p1 d1 where
    s: "processBetsLoop r (b # bs) (p, d) = processBetsLoop r bs (p1, d1)" and
    b1: "bets d1 = map ?f (bets d)"
    by (rule processBetsLoop_step[of r b bs p d])
  have ih: "list_all2 (\<lambda>x x'. ?R bs (?f x) x') (bets d) (bets (snd (processBetsLoop r bs (p1, d1))))"
    using Cons.IH[of d1 p1] unfolding b1 by (simp add: list_all2_map1)
  have mono: "?R bs (?f x) x' \<Longrightarrow> ?R (b # bs) x x'" for x x'
  proof (cases "bet_id x = bet_id b")
    case True
    assume a: "?R bs (?f x) x'"
    show ?thesis
    proof (cases "bet_id b \<in> bet_id ` set bs")
      case True
      with a \<open>bet_id x = bet_id b\<close> show ?thesis by auto
    next
      case False
      with a \<open>bet_id x = bet_id b\<close> have "x' = ?upd b x" by auto
      with \<open>bet_id x = bet_id b\<close> show ?thesis by auto
    qed
  next
    case False
    assume a: "?R bs (?f x) x'"
    with False show ?thesis by auto
  qed
  show ?case
    unfolding s by (rule list_all2_mono[OF ih]) (rule mono)
qed

lemma list_all2_eq_map: "list_all2 (\<lambda>x y. y = f x) xs ys \<Longrightarrow> ys = map f xs"
  by (induction rule: list_all2_induct) auto

text \<open>processBetsForResult on a collection with unique identifiers.\<close>

lemma processBetsForResult_bets:
  assumes "distinct (map bet_id (bets d))"
  shows "bets (snd (processBetsForResult gid r d)) =
           map (\<lambda>x. if gameId x = gid then markedAs r x else x) (bets d)"
proof -
  let ?bs = "filter (\<lambda>b. gameId b = gid) (bets d)"
  let ?p0 = "\<lparr>p_totalBets = length ?bs, winningBets = 0, losingBets = 0, totalWinAmount = 0\<rparr>"
  have rel: "list_all2 (\<lambda>x x'. x' = (if gameId x = gid then markedAs r x else x))
      (bets d) (bets (snd (processBetsLoop r ?bs (?p0, d))))"
  proof (rule list_all2_mono_set[OF processBetsLoop_bets])
    fix x x'
    assume x: "x \<in> set (bets d)"
      and a: "if bet_id x \<in> bet_id ` set ?bs
              then \<exists>b \<in> set ?bs. bet_id b = bet_id x \<and>
                     x' = x\<lparr>isWinning := Some (checkBetWinning b r), resultDeclared := True,
                            bet_declaredResult := Some (fallback r)\<rparr>
              else x' = x"
    show "x' = (if gameId x = gid then markedAs r x else x)"
    proof (cases "gameId x = gid")
      case True
      then have "bet_id x \<in> bet_id ` set ?bs" using x by auto
      with a obtain b where b: "b \<in> set ?bs" "bet_id b = bet_id x"
        "x' = x\<lparr>isWinning := Some (checkBetWinning b r), resultDeclared := True,
                bet_declaredResult := Some (fallback r)\<rparr>"
        by auto
      have "b = x" using distinct_bet_id[OF assms x _ b(2)] b(1) by simp
      with b True show ?thesis by (simp add: markedAs_def)
    next
      case False
      have "bet_id x \<notin> bet_id ` set ?bs"
      proof
        assume "bet_id x \<in> bet_id ` set ?bs"
        then obtain b where b: "b \<in> set ?bs" "bet_id b = bet_id x" by auto
        have "b = x" using distinct_bet_id[OF assms x _ b(2)] b(1) by simp
        with b(1) False show False by simp
      qed
      with a False show ?thesis by simp
    qed
  qed
  show ?thesis
    unfolding processBetsForResult_def Let_def by (rule list_all2_eq_map[OF rel])
qed

lemma processBetsForResult_users:
  "users (snd (processBetsForResult gid r d)) uid =
     map_option
       (\<lambda>u. foldl (\<lambda>u b. creditUserDoc (potentialWinning b) u) u
              (filter (\<lambda>b. gameId b = gid \<and> checkBetWinning b r \<and> userId b = uid) (bets d)))
       (users d uid)"
  unfolding processBetsForResult_def Let_def processBetsLoop_users
  by (simp add: conj_commute conj_left_commute)

lemma processBetsForResult_others:
  "wallets (snd (processBetsForResult gid r d)) = wallets d \<and>
   transactions (snd (processBetsForResult gid r d)) = transactions d \<and>
   games (snd (processBetsForResult gid r d)) = games d \<and>
   gameResults (snd (processBetsForResult gid r d)) = gameResults d"
  unfolding processBetsForResult_def Let_def by (rule processBetsLoop_others)

lemma processBetsForResult_counts:
  "p_totalBets (fst (processBetsForResult gid r d)) =
     length (filter (\<lambda>b. gameId b = gid) (bets d)) \<and>
   winningBets (fst (processBetsForResult gid r d)) =
     length (filter (\<lambda>b. gameId b = gid \<and> checkBetWinning b r) (bets d)) \<and>
   totalWinAmount (fst (processBetsForResult gid r d)) =
     js_sum (map potentialWinning (filter (\<lambda>b. gameId b = gid \<and> checkBetWinning b r) (bets d)))"
  unfolding processBetsForResult_def Let_def
  using processBetsLoop_counts[of r "filter (\<lambda>b. gameId b = gid) (bets d)"
          "\<lparr>p_totalBets = length (filter (\<lambda>b. gameId b = gid) (bets d)), winningBets = 0,
            losingBets = 0, totalWinAmount = 0\<rparr>" d]
  by (simp add: js_sum_def conj_commute)


section \<open>The route of results.ts, second version\<close>


text \<open>What an accepted declaration is made of.\<close>

lemma declare_route_success:
  assumes "declare_route d gid body = (Inr p, d')"
  shows "\<exists>g s. games d gid = Some g \<and> \<not> truthy (declaredResult g) \<and> currentStatus g = Closed \<and>
           (p, d') = processBetsForResult gid (resultObject body)
                       (d\<lparr>games := (games d)
                            (gid \<mapsto> g\<lparr>declaredResult := Some s, currentStatus := ResultDeclared\<rparr>)\<rparr>)"
proof -
  from assms obtain g where g: "games d gid = Some g"
    by (auto simp: declare_route_def Let_def split: option.splits if_splits)
  let ?rt = "or_else (jodiResult body)
      (or_else (harufResult body) (or_else (crossingResult body) (body_declaredResult body)))"
  let ?rv = "if gtype g = Jodi then or_else (jodiResult body) ?rt
             else if gtype g = Haruf then or_else (harufResult body) ?rt
             else or_else (crossingResult body) ?rt"
  let ?d1 = "d\<lparr>games := (games d)
                (gid \<mapsto> g\<lparr>declaredResult := Some (trim (the ?rv)), currentStatus := ResultDeclared\<rparr>)\<rparr>"
  from assms g have c: "\<not> truthy (declaredResult g)" "currentStatus g = Closed"
    by (auto simp: declare_route_def Let_def split: if_splits)
  from assms g have "(p, d') = processBetsForResult gid (resultObject body) ?d1"
    by (auto simp: declare_route_def Let_def resultObject_def split: if_splits prod.splits)
  with g c show ?thesis by blast
qed


text \<open>
  A game whose status is result_declared: the route refuses, with the declaredResult guard
  if the stored result is not empty and with the status guard otherwise.
\<close>

lemma declare_route_repeat:
  assumes "games d gid = Some g" and "declaredResult g = Some s" and "currentStatus g = ResultDeclared"
  shows "declare_route d gid body =
           (Inl (if \<not> truthy (or_else (jodiResult body)
                      (or_else (harufResult body)
                         (or_else (crossingResult body) (body_declaredResult body))))
                 then NoResultProvided
                 else if s \<noteq> [] then ResultAlreadyDeclared else InvalidGameState), d)"
  using assms by (simp add: declare_route_def Let_def truthy_def)


section \<open>The route of results.ts, first version\<close>


section \<open>A run of the results route\<close>

lemmas route_defs = declare_route_def or_else_def truthy_def or_empty_def processBetsForResult_def
  updateBetResult_def creditUser_def checkBetWinning_def toLowerCase_crossing_simps ex_outcomes
  trim_def isSpace_def Let_def

lemma routeDb_run:
  "declare_route routeDb 3 exBody =
     (Inr \<lparr>p_totalBets = 3, winningBets = 2, losingBets = 1, totalWinAmount = 1900\<rparr>,
      routeDb\<lparr>games := [3 \<mapsto> exGame\<lparr>gtype := Crossing, declaredResult := Some ''123'',
                                     currentStatus := ResultDeclared\<rparr>],
              bets := [exBet\<lparr>isWinning := Some True, resultDeclared := True,
                            bet_declaredResult := Some ''123''\<rparr>,
                       exBet\<lparr>bet_id := 2, userId := 8, betNumber := ''21'', isWinning := Some True,
                            resultDeclared := True, bet_declaredResult := Some ''123''\<rparr>,
                       exBet\<lparr>bet_id := 3, betNumber := ''45'', isWinning := Some False,
                            resultDeclared := True, bet_declaredResult := Some ''123''\<rparr>],
              users := [7 \<mapsto> \<lparr>u_winningBalance = 950, u_totalWinnings = 950\<rparr>]\<rparr>)"
  by (simp add: routeDb_def ex_defs route_defs js_values)


section \<open>Settlement: totals, pending bets, winners without wallet\<close>

text \<open>
  Claim C6, as the code has it. After a run of declareResult that completes over the fetched
  pending bets B, the game result it stores has totalBetAmount equal to the sum of betAmount
  over B and totalWinningAmount equal to the sum, over the winners of B, of the potential
  winning that becomes their winningAmount, both accumulated bet by bet in binary64
  arithmetic; platformCommission is the rounded product of totalBetAmount and the rounded
  quotient commission / 100; netProfit is the rounded difference of the rounded difference
  totalBetAmount - totalWinningAmount and platformCommission.
\<close>

theorem settlement_totals:
  assumes "declareResult d today adminUser gid body = (Inr sm, d')"
  shows "\<exists>g. games d gid = Some g \<and>
     totalBetAmount (s_gameResult sm) = js_sum (map betAmount (pendingBets gid d)) \<and>
     totalWinningAmount (s_gameResult sm) =
       js_sum (map potentialWinning
         (filter (betIsWinner (unifiedWinningNumber g body)) (pendingBets gid d))) \<and>
     platformCommission (s_gameResult sm) =
       js_mul (totalBetAmount (s_gameResult sm)) (js_div (commission g) 100) \<and>
     netProfit (s_gameResult sm) =
       js_sub (js_sub (totalBetAmount (s_gameResult sm)) (totalWinningAmount (s_gameResult sm)))
         (platformCommission (s_gameResult sm)) \<and>
     gr_status (s_gameResult sm) = Declared \<and>
     find (sameDay gid today) (gameResults d') = Some (s_gameResult sm) \<and>
     (distinct (map bet_id (bets d)) \<longrightarrow>
        totalWinningAmount (s_gameResult sm) =
          js_sum (map (\<lambda>x. the (winningAmount x))
            (filter (\<lambda>x. bet_id x \<in> bet_id ` set (pendingBets gid d) \<and> status x = Won)
               (bets d'))))"
proof -
  from declareResult_success[OF assms] obtain g acc d1 where
    g: "games d gid = Some g" and
    r: "settleBets gid (unifiedWinningNumber g body) (pendingBets gid d)
        (\<lparr>acc_totalWinningAmount = 0, acc_betDistribution = betDistribution0\<rparr>, d) = Inr (acc, d1)" and
    bs: "bets d' = bets d1" and
    tb: "totalBetAmount (s_gameResult sm) = js_sum (map betAmount (pendingBets gid d))" and
    tw: "totalWinningAmount (s_gameResult sm) = acc_totalWinningAmount acc" and
    pc: "platformCommission (s_gameResult sm) =
        js_mul (js_sum (map betAmount (pendingBets gid d))) (js_div (commission g) 100)" and
    np: "netProfit (s_gameResult sm) =
        js_sub (js_sub (js_sum (map betAmount (pendingBets gid d))) (acc_totalWinningAmount acc))
          (js_mul (js_sum (map betAmount (pendingBets gid d))) (js_div (commission g) 100))" and
    st: "gr_status (s_gameResult sm) = Declared" and
    sd: "sameDay gid today (s_gameResult sm)" and
    gr: "gameResults d' =
       (case find (sameDay gid today) (gameResults d1) of
          Some r \<Rightarrow> replaceFirst (sameDay gid today) (s_gameResult sm) (gameResults d1)
        | None \<Rightarrow> gameResults d1 @ [s_gameResult sm])"
    by blast
  have tot: "acc_totalWinningAmount acc =
      js_sum (map potentialWinning
        (filter (betIsWinner (unifiedWinningNumber g body)) (pendingBets gid d)))"
    using settleBets_total[OF r] by (simp add: js_sum_def)
  have stored: "find (sameDay gid today) (gameResults d') = Some (s_gameResult sm)"
    unfolding gr
    by (cases "find (sameDay gid today) (gameResults d1)")
       (simp_all add: find_append_new find_replaceFirst sd)
  have post: "totalWinningAmount (s_gameResult sm) =
          js_sum (map (\<lambda>x. the (winningAmount x))
            (filter (\<lambda>x. bet_id x \<in> bet_id ` set (pendingBets gid d) \<and> status x = Won)
               (bets d')))"
    if "distinct (map bet_id (bets d))"
    unfolding tw tot bs using stored_winnings[OF that r] by simp
  show ?thesis
    using g tb tw pc np st tot stored post by simp
qed


theorem settlement_totals_witness:
  "totalBetAmount (s_gameResult exSummary) = js_sum [10, 10, 10] \<and>
   totalWinningAmount (s_gameResult exSummary) = js_sum [950, 950] \<and>
   platformCommission (s_gameResult exSummary) = js_mul 30 (js_div 5 100) \<and>
   netProfit (s_gameResult exSummary) = js_sub (js_sub 30 1900) (3 / 2) \<and>
   find (sameDay 3 0) (gameResults (snd (declareResult exDb 0 (Some 1) 3 exBody))) =
     Some (s_gameResult exSummary) \<and>
   distinct (map bet_id (bets exDb)) \<and>
   totalWinningAmount (s_gameResult exSummary) =
     js_sum (map (\<lambda>x. the (winningAmount x))
       (filter (\<lambda>x. bet_id x \<in> bet_id ` set (pendingBets 3 exDb) \<and> status x = Won)
          (bets (snd (declareResult exDb 0 (Some 1) 3 exBody)))))"
proof -
  have g: "games exDb 3 = Some (exGame\<lparr>gtype := Crossing\<rparr>)" by (simp add: exDb_def)
  have c: "commission (exGame\<lparr>gtype := Crossing\<rparr>) = 5" by (simp add: exGame_def)
  have dis: "distinct (map bet_id (bets exDb))" by (simp add: exDb_def exBet_def)
  have pb: "map betAmount (pendingBets 3 exDb) = [10, 10, 10]"
    by (simp add: exDb_def exBet_def pendingBets_def)
  have wb: "map potentialWinning
      (filter (betIsWinner (unifiedWinningNumber (exGame\<lparr>gtype := Crossing\<rparr>) exBody))
         (pendingBets 3 exDb)) = [950, 950]"
    by (simp add: exDb_def exBet_def pendingBets_def betIsWinner_def unifiedWinningNumber_def
          exBody_def exGame_def truthy_def)
  have v: "totalBetAmount (s_gameResult exSummary) = 30"
    "totalWinningAmount (s_gameResult exSummary) = 1900"
    "platformCommission (s_gameResult exSummary) = 3 / 2"
    by (simp_all add: exSummary_def)
  have run: "declareResult exDb 0 (Some 1) 3 exBody =
      (Inr exSummary, snd (declareResult exDb 0 (Some 1) 3 exBody))"
    unfolding exDb_run by simp
  from settlement_totals[OF run] g c dis pb wb v show ?thesis
    by simp
qed

text \<open>
  Three pending bets of 10 on a game with a commission of 3: the stored platformCommission
  is the binary64 product of 30 and 0.03, which is 0.8999999999999999 and neither the exact
  value of 30 * 3 / 100 nor the binary64 value of that expression, and the stored netProfit
  is not the exact difference of the stored totals.
\<close>

theorem commission_rounding_counterexample:
  "map_option commission (games rateDb 3) = Some 3 \<and>
   map betAmount (pendingBets 3 rateDb) = [10, 10, 10] \<and>
   map totalBetAmount (gameResults (snd (declareResult rateDb 0 (Some 1) 3 exBody))) = [30] \<and>
   map totalWinningAmount (gameResults (snd (declareResult rateDb 0 (Some 1) 3 exBody))) = [1900] \<and>
   map platformCommission (gameResults (snd (declareResult rateDb 0 (Some 1) 3 exBody))) =
     [2026619832316723 / 2251799813685248] \<and>
   (2026619832316723 / 2251799813685248 :: real) \<noteq> 30 * 3 / 100 \<and>
   2026619832316723 / 2251799813685248 \<noteq> js_div (js_mul 30 3) 100 \<and>
   map netProfit (gameResults (snd (declareResult rateDb 0 (Some 1) 3 exBody))) =
     [- (4114152608812237 / 2199023255552)] \<and>
   (- (4114152608812237 / 2199023255552) :: real) \<noteq>
     30 - 1900 - 2026619832316723 / 2251799813685248"
proof -
  have a: "map_option commission (games rateDb 3) = Some 3"
    by (simp add: rateDb_def)
  have b: "map betAmount (pendingBets 3 rateDb) = [10, 10, 10]"
    by (simp add: rateDb_def exDb_def exBet_def pendingBets_def)
  have r: "gameResults (snd (declareResult rateDb 0 (Some 1) 3 exBody)) =
      [(s_gameResult exSummary)\<lparr>platformCommission := 2026619832316723 / 2251799813685248,
                                netProfit := - (4114152608812237 / 2199023255552)\<rparr>]"
    by (simp add: rateDb_def ex_defs run_defs exSummary_def numeral_3_eq_3 numeral_2_eq_2
          js_values js_commission_3)
  have n: "(2026619832316723 / 2251799813685248 :: real) \<noteq> 30 * 3 / 100"
    "(- (4114152608812237 / 2199023255552) :: real) \<noteq>
       30 - 1900 - 2026619832316723 / 2251799813685248"
    by simp_all
  have m: "2026619832316723 / 2251799813685248 \<noteq> js_div (js_mul 30 3) 100"
    by (simp add: js_quotient_90)
  show ?thesis
    unfolding r using a b n m by (simp add: exSummary_def)
qed

text \<open>
  Claim C4, as the code has it. declareResult of games.ts fetches only the pending bets of
  the game; whatever the outcome of a run, a stored bet is either untouched or was a pending
  bet of the game and is now won or lost; after a run that completes every fetched bet is
  won or lost, each wallet has received, one after the other, the winnings of its owner's
  winning pending bets, no pending bet of the game is left, and any further run for the
  game changes no bet, no wallet and no ledger entry. processBetsForResult of results.ts
  has no status filter: every bet of the game, whatever its status, gets the three result
  fields and keeps its status, and the user of every winning bet is credited; wallets and
  ledger are not touched. After a declaration the route has accepted, the route refuses
  every further declaration for the game and writes nothing: with the declaredResult guard
  when the stored result is not empty, with the status guard when it is empty.
\<close>

theorem pending_bets_settled_once:
  assumes "distinct (map bet_id (bets d))"
  shows "set (pendingBets gid d) = {b \<in> set (bets d). gameId b = gid \<and> status b = Pending} \<and>
    list_all2
      (\<lambda>x x'. x' = x \<or>
         (gameId x = gid \<and> status x = Pending \<and> (status x' = Won \<or> status x' = Lost)))
      (bets d) (bets (snd (declareResult d today adminUser gid body))) \<and>
    (\<forall>sm d'. declareResult d today adminUser gid body = (Inr sm, d') \<longrightarrow>
       (\<exists>g. games d gid = Some g \<and>
          list_all2
            (\<lambda>x x'. if gameId x = gid \<and> status x = Pending
                     then settledAs (unifiedWinningNumber g body) x x' else x' = x)
            (bets d) (bets d') \<and>
          (\<forall>uid. wallets d' uid =
             map_option
               (\<lambda>w. foldl (\<lambda>w b. creditWallet (potentialWinning b) w) w
                  (filter (\<lambda>b. betIsWinner (unifiedWinningNumber g body) b \<and> userId b = uid)
                     (pendingBets gid d)))
               (wallets d uid))) \<and>
       pendingBets gid d' = [] \<and>
       (\<forall>today2 admin2 body2.
          bets (snd (declareResult d' today2 admin2 gid body2)) = bets d' \<and>
          wallets (snd (declareResult d' today2 admin2 gid body2)) = wallets d' \<and>
          transactions (snd (declareResult d' today2 admin2 gid body2)) = transactions d')) \<and>
    bets (snd (processBetsForResult gid r d)) =
      map (\<lambda>x. if gameId x = gid then markedAs r x else x) (bets d) \<and>
    map status (bets (snd (processBetsForResult gid r d))) = map status (bets d) \<and>
    (\<forall>uid. users (snd (processBetsForResult gid r d)) uid =
       map_option
         (\<lambda>u. foldl (\<lambda>u b. creditUserDoc (potentialWinning b) u) u
            (filter (\<lambda>b. gameId b = gid \<and> checkBetWinning b r \<and> userId b = uid) (bets d)))
         (users d uid)) \<and>
    wallets (snd (processBetsForResult gid r d)) = wallets d \<and>
    transactions (snd (processBetsForResult gid r d)) = transactions d \<and>
    (\<forall>p d'. declare_route d gid body = (Inr p, d') \<longrightarrow>
       (\<exists>g s. games d gid = Some g \<and> \<not> truthy (declaredResult g) \<and> currentStatus g = Closed \<and>
          games d' = (games d)(gid \<mapsto> g\<lparr>declaredResult := Some s, currentStatus := ResultDeclared\<rparr>) \<and>
          bets d' = map (\<lambda>x. if gameId x = gid then markedAs (resultObject body) x else x) (bets d) \<and>
          (\<forall>uid. users d' uid =
             map_option
               (\<lambda>u. foldl (\<lambda>u b. creditUserDoc (potentialWinning b) u) u
                  (filter (\<lambda>b. gameId b = gid \<and> checkBetWinning b (resultObject body) \<and>
                              userId b = uid) (bets d)))
               (users d uid)) \<and>
          wallets d' = wallets d \<and> transactions d' = transactions d \<and>
          (\<forall>body2. declare_route d' gid body2 =
             (Inl (if \<not> truthy (or_else (jodiResult body2)
                         (or_else (harufResult body2)
                            (or_else (crossingResult body2) (body_declaredResult body2))))
                   then NoResultProvided
                   else if s \<noteq> [] then ResultAlreadyDeclared else InvalidGameState), d'))))"
proof -
  have any: "list_all2
      (\<lambda>x x'. x' = x \<or>
         (gameId x = gid \<and> status x = Pending \<and> (status x' = Won \<or> status x' = Lost)))
      (bets d) (bets (snd (declareResult d today adminUser gid body)))"
    using declareResult_any[of d today adminUser gid body] pending_relation_any[OF assms]
    by (auto simp: list_all2_same)
  have succ: "(\<exists>g. games d gid = Some g \<and>
          list_all2
            (\<lambda>x x'. if gameId x = gid \<and> status x = Pending
                     then settledAs (unifiedWinningNumber g body) x x' else x' = x)
            (bets d) (bets d') \<and>
          (\<forall>uid. wallets d' uid =
             map_option
               (\<lambda>w. foldl (\<lambda>w b. creditWallet (potentialWinning b) w) w
                  (filter (\<lambda>b. betIsWinner (unifiedWinningNumber g body) b \<and> userId b = uid)
                     (pendingBets gid d)))
               (wallets d uid))) \<and>
       pendingBets gid d' = [] \<and>
       (\<forall>today2 admin2 body2.
          bets (snd (declareResult d' today2 admin2 gid body2)) = bets d' \<and>
          wallets (snd (declareResult d' today2 admin2 gid body2)) = wallets d' \<and>
          transactions (snd (declareResult d' today2 admin2 gid body2)) = transactions d')"
    if run: "declareResult d today adminUser gid body = (Inr sm, d')" for sm d'
  proof -
    from declareResult_success[OF run] obtain g acc d1 where
      g: "games d gid = Some g" and
      r: "settleBets gid (unifiedWinningNumber g body) (pendingBets gid d)
          (\<lparr>acc_totalWinningAmount = 0, acc_betDistribution = betDistribution0\<rparr>, d) = Inr (acc, d1)" and
      b: "bets d' = bets d1" and w: "wallets d' = wallets d1"
      by blast
    have rel: "list_all2
            (\<lambda>x x'. if gameId x = gid \<and> status x = Pending
                     then settledAs (unifiedWinningNumber g body) x x' else x' = x)
            (bets d) (bets d')"
      unfolding b by (rule pending_relation_success[OF assms r])
    have wal: "wallets d' uid =
             map_option
               (\<lambda>w. foldl (\<lambda>w b. creditWallet (potentialWinning b) w) w
                  (filter (\<lambda>b. betIsWinner (unifiedWinningNumber g body) b \<and> userId b = uid)
                     (pendingBets gid d)))
               (wallets d uid)" for uid
      unfolding w by (rule settleBets_wallets[OF r])
    have np: "pendingBets gid d' = []"
      unfolding pendingBets_def by (rule no_pending_after[OF rel])
    show ?thesis
      using g rel wal np declareResult_nothing_pending[OF np] by blast
  qed
  have pb: "bets (snd (processBetsForResult gid r d)) =
      map (\<lambda>x. if gameId x = gid then markedAs r x else x) (bets d)"
    by (rule processBetsForResult_bets[OF assms])
  have ps: "map status (bets (snd (processBetsForResult gid r d))) = map status (bets d)"
    unfolding pb by (simp add: markedAs_def)
  have pu: "\<forall>uid. users (snd (processBetsForResult gid r d)) uid =
       map_option
         (\<lambda>u. foldl (\<lambda>u b. creditUserDoc (potentialWinning b) u) u
            (filter (\<lambda>b. gameId b = gid \<and> checkBetWinning b r \<and> userId b = uid) (bets d)))
         (users d uid)"
    using processBetsForResult_users by blast
  have po: "wallets (snd (processBetsForResult gid r d)) = wallets d"
    "transactions (snd (processBetsForResult gid r d)) = transactions d"
    using processBetsForResult_others[of gid r d] by simp_all
  have route: "\<exists>g s. games d gid = Some g \<and> \<not> truthy (declaredResult g) \<and> currentStatus g = Closed \<and>
          games d' = (games d)(gid \<mapsto> g\<lparr>declaredResult := Some s, currentStatus := ResultDeclared\<rparr>) \<and>
          bets d' = map (\<lambda>x. if gameId x = gid then markedAs (resultObject body) x else x) (bets d) \<and>
          (\<forall>uid. users d' uid =
             map_option
               (\<lambda>u. foldl (\<lambda>u b. creditUserDoc (potentialWinning b) u) u
                  (filter (\<lambda>b. gameId b = gid \<and> checkBetWinning b (resultObject body) \<and>
                              userId b = uid) (bets d)))
               (users d uid)) \<and>
          wallets d' = wallets d \<and> transactions d' = transactions d \<and>
          (\<forall>body2. declare_route d' gid body2 =
             (Inl (if \<not> truthy (or_else (jodiResult body2)
                         (or_else (harufResult body2)
                            (or_else (crossingResult body2) (body_declaredResult body2))))
                   then NoResultProvided
                   else if s \<noteq> [] then ResultAlreadyDeclared else InvalidGameState), d'))"
    if run: "declare_route d gid body = (Inr p, d')" for p d'
  proof -
    from declare_route_success[OF run] obtain g s where
      g: "games d gid = Some g" "\<not> truthy (declaredResult g)" "currentStatus g = Closed" and
      pd: "(p, d') = processBetsForResult gid (resultObject body)
                       (d\<lparr>games := (games d)
                            (gid \<mapsto> g\<lparr>declaredResult := Some s, currentStatus := ResultDeclared\<rparr>)\<rparr>)"
      by blast
    let ?d1 = "d\<lparr>games := (games d)
                   (gid \<mapsto> g\<lparr>declaredResult := Some s, currentStatus := ResultDeclared\<rparr>)\<rparr>"
    have d': "d' = snd (processBetsForResult gid (resultObject body) ?d1)"
      using pd by (metis snd_conv)
    have dis1: "distinct (map bet_id (bets ?d1))" using assms by simp
    have gm: "games d' = (games d)(gid \<mapsto> g\<lparr>declaredResult := Some s, currentStatus := ResultDeclared\<rparr>)"
      unfolding d' using processBetsForResult_others[of gid "resultObject body" ?d1] by simp
    have bt: "bets d' = map (\<lambda>x. if gameId x = gid then markedAs (resultObject body) x else x) (bets d)"
      unfolding d' using processBetsForResult_bets[OF dis1, of gid "resultObject body"] by simp
    have us: "users d' uid =
             map_option
               (\<lambda>u. foldl (\<lambda>u b. creditUserDoc (potentialWinning b) u) u
                  (filter (\<lambda>b. gameId b = gid \<and> checkBetWinning b (resultObject body) \<and>
                              userId b = uid) (bets d)))
               (users d uid)" for uid
      unfolding d' using processBetsForResult_users[of gid "resultObject body" ?d1 uid] by simp
    have ot: "wallets d' = wallets d" "transactions d' = transactions d"
      unfolding d' using processBetsForResult_others[of gid "resultObject body" ?d1] by simp_all
    have g': "games d' gid = Some (g\<lparr>declaredResult := Some s, currentStatus := ResultDeclared\<rparr>)"
      unfolding gm by simp
    have rp: "declare_route d' gid body2 =
             (Inl (if \<not> truthy (or_else (jodiResult body2)
                         (or_else (harufResult body2)
                            (or_else (crossingResult body2) (body_declaredResult body2))))
                   then NoResultProvided
                   else if s \<noteq> [] then ResultAlreadyDeclared else InvalidGameState), d')" for body2
      by (rule declare_route_repeat[OF g']) simp_all
    show ?thesis
      using g gm bt us ot rp by blast
  qed
  show ?thesis
    using pendingBets_set[of gid d] any succ pb ps pu po route by blast
qed

theorem pending_bets_settled_once_witness:
  "distinct (map bet_id (bets exDb)) \<and>
   map status (bets exDb) = [Pending, Pending, Pending] \<and>
   map status (bets (snd (declareResult exDb 0 (Some 1) 3 exBody))) = [Won, Won, Lost] \<and>
   pendingBets 3 (snd (declareResult exDb 0 (Some 1) 3 exBody)) = [] \<and>
   bets (snd (declareResult (snd (declareResult exDb 0 (Some 1) 3 exBody)) 86400000 (Some 1) 3 exBody)) =
     bets (snd (declareResult exDb 0 (Some 1) 3 exBody)) \<and>
   wallets (snd (declareResult (snd (declareResult exDb 0 (Some 1) 3 exBody)) 86400000 (Some 1) 3 exBody)) =
     wallets (snd (declareResult exDb 0 (Some 1) 3 exBody)) \<and>
   distinct (map bet_id (bets routeDb)) \<and>
   fst (declare_route routeDb 3 exBody) =
     Inr \<lparr>p_totalBets = 3, winningBets = 2, losingBets = 1, totalWinAmount = 1900\<rparr> \<and>
   map isWinning (bets (snd (declare_route routeDb 3 exBody))) = [Some True, Some True, Some False] \<and>
   map status (bets (snd (declare_route routeDb 3 exBody))) = [Pending, Pending, Pending] \<and>
   map_option u_winningBalance (users (snd (declare_route routeDb 3 exBody)) 7) = Some 950 \<and>
   declare_route (snd (declare_route routeDb 3 exBody)) 3 exBody =
     (Inl ResultAlreadyDeclared, snd (declare_route routeDb 3 exBody))"
proof -
  have dis: "distinct (map bet_id (bets exDb))" by (simp add: exDb_def exBet_def)
  have st: "map status (bets exDb) = [Pending, Pending, Pending]" by (simp add: exDb_def exBet_def)
  have st': "map status (bets (snd (declareResult exDb 0 (Some 1) 3 exBody))) = [Won, Won, Lost]"
    unfolding exDb_run by simp
  let ?d' = "snd (declareResult exDb 0 (Some 1) 3 exBody)"
  have run: "declareResult exDb 0 (Some 1) 3 exBody = (Inr exSummary, ?d')"
    unfolding exDb_run by simp
  from pending_bets_settled_once[OF dis, of 3 0 "Some 1" exBody]
  have "\<forall>sm d'. declareResult exDb 0 (Some 1) 3 exBody = (Inr sm, d') \<longrightarrow>
       pendingBets 3 d' = [] \<and>
       (\<forall>today2 admin2 body2.
          bets (snd (declareResult d' today2 admin2 3 body2)) = bets d' \<and>
          wallets (snd (declareResult d' today2 admin2 3 body2)) = wallets d' \<and>
          transactions (snd (declareResult d' today2 admin2 3 body2)) = transactions d')"
    by blast
  with run have games_half: "pendingBets 3 ?d' = [] \<and>
       (\<forall>today2 admin2 body2.
          bets (snd (declareResult ?d' today2 admin2 3 body2)) = bets ?d' \<and>
          wallets (snd (declareResult ?d' today2 admin2 3 body2)) = wallets ?d' \<and>
          transactions (snd (declareResult ?d' today2 admin2 3 body2)) = transactions ?d')"
    by blast
  let ?e' = "snd (declare_route routeDb 3 exBody)"
  let ?p = "\<lparr>p_totalBets = 3, winningBets = 2, losingBets = 1, totalWinAmount = 1900\<rparr>"
  have disr: "distinct (map bet_id (bets routeDb))" by (simp add: routeDb_def exDb_def exBet_def)
  have rrun: "declare_route routeDb 3 exBody = (Inr ?p, ?e')"
    by (simp add: routeDb_run)
  have facts: "map isWinning (bets ?e') = [Some True, Some True, Some False]"
    "map status (bets ?e') = [Pending, Pending, Pending]"
    "map_option u_winningBalance (users ?e' 7) = Some 950"
    by (simp_all add: routeDb_run exBet_def)
  have stored: "games ?e' 3 =
      Some (exGame\<lparr>gtype := Crossing, declaredResult := Some ''123'', currentStatus := ResultDeclared\<rparr>)"
    by (simp add: routeDb_run)
  from pending_bets_settled_once[OF disr, of 3 0 "Some 1" exBody] rrun
  obtain g s where
    gs: "games ?e' = (games routeDb)(3 \<mapsto> g\<lparr>declaredResult := Some s, currentStatus := ResultDeclared\<rparr>)"
    and rep: "\<forall>body2. declare_route ?e' 3 body2 =
             (Inl (if \<not> truthy (or_else (jodiResult body2)
                         (or_else (harufResult body2)
                            (or_else (crossingResult body2) (body_declaredResult body2))))
                   then NoResultProvided
                   else if s \<noteq> [] then ResultAlreadyDeclared else InvalidGameState), ?e')"
    by blast
  have "declaredResult (the (games ?e' 3)) = Some s" unfolding gs by simp
  then have s: "s = ''123''" unfolding stored by simp
  have again: "declare_route ?e' 3 exBody = (Inl ResultAlreadyDeclared, ?e')"
    using rep[rule_format, of exBody] s by (simp add: exBody_def or_else_def truthy_def)
  have pf: "fst (declare_route routeDb 3 exBody) = Inr ?p"
    by (simp add: routeDb_run)
  from dis st st' games_half disr pf facts again show ?thesis by blast
qed

text \<open>
  The settlement of results.ts has no status filter: a bet already marked won is evaluated
  again and its user is credited again, and the status of the bet is not touched.
\<close>

theorem results_route_resettles_counterexample:
  "map status (bets wonDb) = [Won] \<and>
   map_option u_winningBalance (users wonDb 7) = Some 950 \<and>
   fst (declare_route wonDb 3 exBody) =
     Inr \<lparr>p_totalBets = 1, winningBets = 1, losingBets = 0, totalWinAmount = 950\<rparr> \<and>
   map_option u_winningBalance (users (snd (declare_route wonDb 3 exBody)) 7) = Some 1900 \<and>
   map isWinning (bets (snd (declare_route wonDb 3 exBody))) = [Some True] \<and>
   map status (bets (snd (declare_route wonDb 3 exBody))) = [Won]"
  by (simp add: wonDb_def exBody_def exBet_def exGame_def declare_route_def or_else_def truthy_def
        or_empty_def processBetsForResult_def updateBetResult_def creditUser_def
        checkBetWinning_def toLowerCase_crossing_simps ex_outcomes trim_def isSpace_def Let_def
        js_values)

text \<open>
  Claim C9. In a completed run of declareResult, a winning pending bet whose user has no
  wallet document is stored as won with winningAmount = potentialWinning, its amount is
  added to totalWinningAmount when the loop reaches it among the winning bets, the user
  still has no wallet (nothing is credited) and none of the ledger transactions created by
  the run belongs to that user.
\<close>

theorem winner_without_wallet:
  assumes "distinct (map bet_id (bets d))"
    and "declareResult d today adminUser gid body = (Inr sm, d')"
    and "games d gid = Some g"
    and "b \<in> set (pendingBets gid d)"
    and "betIsWinner (unifiedWinningNumber g body) b"
    and "wallets d (userId b) = None"
  shows "(\<exists>b' \<in> set (bets d'). bet_id b' = bet_id b \<and> status b' = Won \<and> isWinner b' = Some True \<and>
            winningAmount b' = Some (potentialWinning b)) \<and>
         (\<exists>ws1 ws2.
            filter (betIsWinner (unifiedWinningNumber g body)) (pendingBets gid d) = ws1 @ b # ws2 \<and>
            totalWinningAmount (s_gameResult sm) =
              foldl js_add (js_add (js_sum (map potentialWinning ws1)) (potentialWinning b))
                (map potentialWinning ws2)) \<and>
         wallets d' (userId b) = None \<and>
         (\<exists>new. transactions d' = transactions d @ new \<and>
                (\<forall>t \<in> set new. txn_userId t \<noteq> userId b))"
proof -
  let ?u = "unifiedWinningNumber g body"
  from declareResult_success[OF assms(2)] assms(3) obtain acc d1 where
    r: "settleBets gid ?u (pendingBets gid d)
        (\<lparr>acc_totalWinningAmount = 0, acc_betDistribution = betDistribution0\<rparr>, d) = Inr (acc, d1)" and
    bs: "bets d' = bets d1" and w: "wallets d' = wallets d1" and
    t: "transactions d' = transactions d1" and
    tw: "totalWinningAmount (s_gameResult sm) = acc_totalWinningAmount acc"
    by auto
  have bin: "b \<in> set (bets d)" and bp: "gameId b = gid \<and> status b = Pending"
    using assms(4) by (simp_all add: pendingBets_set)
  have rel: "list_all2
      (\<lambda>x x'. if gameId x = gid \<and> status x = Pending then settledAs ?u x x' else x' = x)
      (bets d) (bets d')"
    unfolding bs by (rule pending_relation_success[OF assms(1) r])
  from list_all2_witness[OF rel bin] bp obtain b' where
    b': "b' \<in> set (bets d')" "settledAs ?u b b'"
    by auto
  have part1: "\<exists>b' \<in> set (bets d'). bet_id b' = bet_id b \<and> status b' = Won \<and>
      isWinner b' = Some True \<and> winningAmount b' = Some (potentialWinning b)"
    using b' assms(5) by (auto simp: settledAs_def)
  have win: "b \<in> set (filter (betIsWinner ?u) (pendingBets gid d))"
    using assms(4,5) by simp
  from split_list[OF win] obtain ws1 ws2 where
    ws: "filter (betIsWinner ?u) (pendingBets gid d) = ws1 @ b # ws2"
    by blast
  have "totalWinningAmount (s_gameResult sm) =
      foldl js_add (js_add (js_sum (map potentialWinning ws1)) (potentialWinning b))
        (map potentialWinning ws2)"
    unfolding tw using settleBets_total[OF r] unfolding ws by (simp add: js_sum_def)
  with ws have part2: "\<exists>ws1 ws2.
      filter (betIsWinner ?u) (pendingBets gid d) = ws1 @ b # ws2 \<and>
      totalWinningAmount (s_gameResult sm) =
        foldl js_add (js_add (js_sum (map potentialWinning ws1)) (potentialWinning b))
          (map potentialWinning ws2)"
    by blast
  have part3: "wallets d' (userId b) = None"
    unfolding w using settleBets_wallets[OF r, of "userId b"] assms(6) by simp
  from settleBets_transactions[OF r] obtain new where
    n: "transactions d1 = transactions d @ new" and
    m: "map (\<lambda>t. (txn_userId t, txn_type t, txn_amount t, txn_gameId t)) new =
        map (\<lambda>b. (userId b, ''win'', potentialWinning b, gid))
          (filter (\<lambda>b. betIsWinner ?u b \<and> wallets d (userId b) \<noteq> None) (pendingBets gid d))"
    by blast
  have "txn_userId t \<noteq> userId b" if tn: "t \<in> set new" for t
  proof -
    have "(txn_userId t, txn_type t, txn_amount t, txn_gameId t) \<in>
        set (map (\<lambda>t. (txn_userId t, txn_type t, txn_amount t, txn_gameId t)) new)"
      using tn by (rule imageI[of t "set new", folded set_map])
    then have "wallets d (txn_userId t) \<noteq> None"
      unfolding m by auto
    with assms(6) show ?thesis by auto
  qed
  with n t have part4: "\<exists>new. transactions d' = transactions d @ new \<and>
      (\<forall>t \<in> set new. txn_userId t \<noteq> userId b)"
    by auto
  from part1 part2 part3 part4 show ?thesis by blast
qed

theorem winner_without_wallet_witness:
  "(\<exists>b' \<in> set (bets (snd (declareResult exDb 0 (Some 1) 3 exBody))).
       bet_id b' = 2 \<and> status b' = Won \<and> winningAmount b' = Some 950) \<and>
   totalWinningAmount (s_gameResult exSummary) = 950 + 950 \<and>
   wallets (snd (declareResult exDb 0 (Some 1) 3 exBody)) 8 = None \<and>
   map txn_userId (transactions (snd (declareResult exDb 0 (Some 1) 3 exBody))) = [7]"
proof -
  let ?b = "exBet\<lparr>bet_id := 2, userId := 8, betNumber := ''21''\<rparr>"
  let ?g = "exGame\<lparr>gtype := Crossing\<rparr>"
  have dis: "distinct (map bet_id (bets exDb))" by (simp add: exDb_def exBet_def)
  have g: "games exDb 3 = Some ?g" by (simp add: exDb_def)
  have b: "?b \<in> set (pendingBets 3 exDb)" by (simp add: exDb_def pendingBets_def exBet_def)
  have win: "betIsWinner (unifiedWinningNumber ?g exBody) ?b"
    by (simp add: unifiedWinningNumber_def exBody_def exBet_def exGame_def betIsWinner_def truthy_def)
  have nw: "wallets exDb (userId ?b) = None" by (simp add: exDb_def)
  from winner_without_wallet[OF dis exDb_run g b win nw]
  show ?thesis
    unfolding exDb_run by (simp add: exSummary_def exBet_def)
qed


section \<open>The guards of result declaration\<close>












section \<open>Placing a bet\<close>



lemma placeBet_checked:
  assumes "req_gameId req = Some gid" and "truthy (req_betType req)" and "truthy (req_betNumber req)"
    and "req_betAmount req = Some a" and "0 < a" and "games d gid = Some g" and "isActive g"
    and "placeBet_status t g = Open" and "minBet g \<le> a" and "a \<le> maxBet g"
  shows "placeBet nw d t uid req =
           withTransaction
             (placeBet_callback nw uid gid g (the (req_betType req)) (the (req_betNumber req)) a
                (req_betData req)) d"
  using assms by (simp add: placeBet_def Let_def)

lemma placeBet_unchecked:
  assumes "req_gameId req = None \<or> \<not> truthy (req_betType req) \<or> \<not> truthy (req_betNumber req) \<or>
      req_betAmount req = None \<or> (\<exists>a. req_betAmount req = Some a \<and> a \<le> 0) \<or>
      (\<exists>gid. req_gameId req = Some gid \<and>
         (games d gid = None \<or>
          (\<exists>g. games d gid = Some g \<and>
             (\<not> isActive g \<or> placeBet_status t g \<noteq> Open \<or>
              (\<exists>a. req_betAmount req = Some a \<and> (a < minBet g \<or> maxBet g < a))))))"
  shows "\<exists>e. placeBet nw d t uid req = (Inl e, d) \<and> e \<noteq> InsufficientBalance \<and> e \<noteq> InvalidBetType"
  using assms by (auto simp: placeBet_def Let_def split: option.splits)

lemma callback_insufficient:
  assumes "depositBalance (case wallets d uid of Some w \<Rightarrow> w | None \<Rightarrow> nw) < a"
  shows "placeBet_callback nw uid gid g bt bn a bd d = Inl InsufficientBalance"
  using assms by (auto simp: placeBet_callback_def Let_def split: option.splits)

lemma callback_invalid_type:
  assumes "\<not> depositBalance (case wallets d uid of Some w \<Rightarrow> w | None \<Rightarrow> nw) < a"
    and "bt \<noteq> ''jodi''" and "bt \<noteq> ''haruf''" and "bt \<noteq> ''crossing''"
  shows "placeBet_callback nw uid gid g bt bn a bd d = Inl InvalidBetType"
  using assms by (auto simp: placeBet_callback_def Let_def split: option.splits)

lemma callback_success:
  assumes "placeBet_callback nw uid gid g bt bn a bd d = Inr (rc, d')"
  shows "\<exists>b. bets d' = bets d @ [b] \<and> betType b = bt \<and> gameType b = gtype g \<and>
           userId b = uid \<and> gameId b = gid \<and> betNumber b = bn \<and> betAmount b = a \<and>
           status b = Pending \<and>
           (bt = ''jodi'' \<and> potentialWinning b = js_mul a (jodiPayout g) \<or>
            bt = ''haruf'' \<and> potentialWinning b = js_mul a (harufPayout g) \<or>
            bt = ''crossing'' \<and> potentialWinning b = js_mul a (crossingPayout g))"
  using assms
  by (auto simp: placeBet_callback_def Let_def split: option.splits if_splits)

text \<open>
  The callback accepts each of the three bet types once the balance suffices; the type of
  the game is not consulted.
\<close>

lemma callback_accepts:
  assumes "\<not> depositBalance (case wallets d uid of Some w \<Rightarrow> w | None \<Rightarrow> nw) < a"
    and "bt = ''jodi'' \<or> bt = ''haruf'' \<or> bt = ''crossing''"
  shows "\<exists>rc d' b. placeBet_callback nw uid gid g bt bn a bd d = Inr (rc, d') \<and>
           bets d' = bets d @ [b] \<and> betType b = bt \<and> gameType b = gtype g \<and>
           userId b = uid \<and> gameId b = gid \<and> betNumber b = bn \<and> betAmount b = a \<and>
           status b = Pending \<and>
           potentialWinning b =
             js_mul a (if bt = ''jodi'' then jodiPayout g
                       else if bt = ''haruf'' then harufPayout g else crossingPayout g)"
  using assms
  by (cases "wallets d uid") (auto simp: placeBet_callback_def Let_def)


lemma placeBet_cases:
  "(\<exists>e. placeBet nw d t uid req = (Inl e, d) \<and> e \<noteq> InsufficientBalance \<and> e \<noteq> InvalidBetType) \<or>
   (\<exists>gid a g. req_gameId req = Some gid \<and> truthy (req_betType req) \<and> truthy (req_betNumber req) \<and>
      req_betAmount req = Some a \<and> 0 < a \<and> games d gid = Some g \<and> isActive g \<and>
      placeBet_status t g = Open \<and> minBet g \<le> a \<and> a \<le> maxBet g \<and>
      placeBet nw d t uid req =
        withTransaction
          (placeBet_callback nw uid gid g (the (req_betType req)) (the (req_betNumber req)) a
             (req_betData req)) d)"
proof (cases "req_gameId req = None \<or> \<not> truthy (req_betType req) \<or> \<not> truthy (req_betNumber req) \<or>
      req_betAmount req = None \<or> (\<exists>a. req_betAmount req = Some a \<and> a \<le> 0) \<or>
      (\<exists>gid. req_gameId req = Some gid \<and>
         (games d gid = None \<or>
          (\<exists>g. games d gid = Some g \<and>
             (\<not> isActive g \<or> placeBet_status t g \<noteq> Open \<or>
              (\<exists>a. req_betAmount req = Some a \<and> (a < minBet g \<or> maxBet g < a))))))")
  case True
  from placeBet_unchecked[OF True] show ?thesis by blast
next
  case False
  then obtain gid a where ga: "req_gameId req = Some gid" "req_betAmount req = Some a"
    and tr: "truthy (req_betType req)" "truthy (req_betNumber req)" "0 < a"
    by (cases "req_gameId req"; cases "req_betAmount req") (auto simp: not_le)
  from False ga obtain g where g: "games d gid = Some g" "isActive g" "placeBet_status t g = Open"
      "minBet g \<le> a" "a \<le> maxBet g"
    by (cases "games d gid") (auto simp: not_less)
  from placeBet_checked[OF ga(1) tr(1,2) ga(2) tr(3) g] ga tr g show ?thesis by blast
qed




lemma exGame_open_at_noon: "placeBet_status ''12:00'' exGame = Open"
  by (simp add: placeBet_status_def exGame_def exTimes timeStatus_Some)






text \<open>
  Claim C8, as the code has it. placeBet never compares betType with game.type. It rejects
  every request whose betType is none of jodi, haruf and crossing (with the invalid-bet-type
  error once the earlier checks and the balance check have passed), and then nothing is
  written. A request whose betType is one of the three is accepted on a game of any type
  once it passes the other checks (required fields, positive amount, active game, open
  betting window, amount within the limits, sufficient balance). An accepted request
  creates one pending bet that carries the requested betType next to the game's type and
  is priced with the payout of its betType.
\<close>

theorem placeBet_bet_type:
  "(\<forall>bt. req_betType req = Some bt \<and> bt \<noteq> ''jodi'' \<and> bt \<noteq> ''haruf'' \<and> bt \<noteq> ''crossing'' \<longrightarrow>
      (\<exists>e. placeBet nw d t uid req = (Inl e, d))) \<and>
   (\<forall>bt a gid g. req_betType req = Some bt \<and> bt \<noteq> ''jodi'' \<and> bt \<noteq> ''haruf'' \<and> bt \<noteq> ''crossing'' \<and>
        bt \<noteq> [] \<and> req_gameId req = Some gid \<and> truthy (req_betNumber req) \<and>
        req_betAmount req = Some a \<and> 0 < a \<and> games d gid = Some g \<and> isActive g \<and>
        placeBet_status t g = Open \<and> minBet g \<le> a \<and> a \<le> maxBet g \<and>
        \<not> depositBalance (case wallets d uid of Some w \<Rightarrow> w | None \<Rightarrow> nw) < a \<longrightarrow>
      placeBet nw d t uid req = (Inl InvalidBetType, d)) \<and>
   (\<forall>bt a gid g. req_betType req = Some bt \<and> (bt = ''jodi'' \<or> bt = ''haruf'' \<or> bt = ''crossing'') \<and>
        req_gameId req = Some gid \<and> truthy (req_betNumber req) \<and>
        req_betAmount req = Some a \<and> 0 < a \<and> games d gid = Some g \<and> isActive g \<and>
        placeBet_status t g = Open \<and> minBet g \<le> a \<and> a \<le> maxBet g \<and>
        \<not> depositBalance (case wallets d uid of Some w \<Rightarrow> w | None \<Rightarrow> nw) < a \<longrightarrow>
      (\<exists>rc d' b. placeBet nw d t uid req = (Inr rc, d') \<and>
         bets d' = bets d @ [b] \<and> betType b = bt \<and> gameType b = gtype g \<and>
         userId b = uid \<and> gameId b = gid \<and> betAmount b = a \<and> status b = Pending \<and>
         potentialWinning b =
           js_mul a (if bt = ''jodi'' then jodiPayout g
                     else if bt = ''haruf'' then harufPayout g else crossingPayout g))) \<and>
   (\<forall>rc d'. placeBet nw d t uid req = (Inr rc, d') \<longrightarrow>
      (\<exists>gid g a b. req_gameId req = Some gid \<and> games d gid = Some g \<and> req_betAmount req = Some a \<and>
         bets d' = bets d @ [b] \<and> req_betType req = Some (betType b) \<and> gameType b = gtype g \<and>
         status b = Pending \<and> betAmount b = a \<and>
         (betType b = ''jodi'' \<and> potentialWinning b = js_mul a (jodiPayout g) \<or>
          betType b = ''haruf'' \<and> potentialWinning b = js_mul a (harufPayout g) \<or>
          betType b = ''crossing'' \<and> potentialWinning b = js_mul a (crossingPayout g))))"
proof -
  have inv: "\<exists>e. placeBet nw d t uid req = (Inl e, d)"
    if c: "placeBet nw d t uid req =
        withTransaction
          (placeBet_callback nw uid gid g (the (req_betType req)) (the (req_betNumber req)) a
             (req_betData req)) d"
      and bt: "req_betType req = Some bt" "bt \<noteq> ''jodi''" "bt \<noteq> ''haruf''" "bt \<noteq> ''crossing''"
    for gid g a bt
  proof (cases "depositBalance (case wallets d uid of Some w \<Rightarrow> w | None \<Rightarrow> nw) < a")
    case True
    then show ?thesis
      using c callback_insufficient[where d=d and uid=uid and nw=nw and a=a and gid=gid and g=g]
      by (simp add: withTransaction_def)
  next
    case False
    then show ?thesis
      using c bt callback_invalid_type[where d=d and uid=uid and nw=nw and a=a and gid=gid and g=g and bt=bt]
      by (simp add: withTransaction_def)
  qed
  have p1: "\<forall>bt. req_betType req = Some bt \<and> bt \<noteq> ''jodi'' \<and> bt \<noteq> ''haruf'' \<and> bt \<noteq> ''crossing'' \<longrightarrow>
      (\<exists>e. placeBet nw d t uid req = (Inl e, d))"
    using placeBet_cases[of nw d t uid req] inv by blast
  have p2: "\<forall>bt a gid g. req_betType req = Some bt \<and> bt \<noteq> ''jodi'' \<and> bt \<noteq> ''haruf'' \<and> bt \<noteq> ''crossing'' \<and>
        bt \<noteq> [] \<and> req_gameId req = Some gid \<and> truthy (req_betNumber req) \<and>
        req_betAmount req = Some a \<and> 0 < a \<and> games d gid = Some g \<and> isActive g \<and>
        placeBet_status t g = Open \<and> minBet g \<le> a \<and> a \<le> maxBet g \<and>
        \<not> depositBalance (case wallets d uid of Some w \<Rightarrow> w | None \<Rightarrow> nw) < a \<longrightarrow>
      placeBet nw d t uid req = (Inl InvalidBetType, d)"
  proof (intro allI impI)
    fix bt a gid g
    assume h: "req_betType req = Some bt \<and> bt \<noteq> ''jodi'' \<and> bt \<noteq> ''haruf'' \<and> bt \<noteq> ''crossing'' \<and>
        bt \<noteq> [] \<and> req_gameId req = Some gid \<and> truthy (req_betNumber req) \<and>
        req_betAmount req = Some a \<and> 0 < a \<and> games d gid = Some g \<and> isActive g \<and>
        placeBet_status t g = Open \<and> minBet g \<le> a \<and> a \<le> maxBet g \<and>
        \<not> depositBalance (case wallets d uid of Some w \<Rightarrow> w | None \<Rightarrow> nw) < a"
    then have tr: "truthy (req_betType req)" by (simp add: truthy_def)
    have "placeBet nw d t uid req =
        withTransaction
          (placeBet_callback nw uid gid g (the (req_betType req)) (the (req_betNumber req)) a
             (req_betData req)) d"
      using placeBet_checked[where req=req and d=d and t=t and nw=nw and uid=uid and gid=gid and a=a and g=g]
        h tr by blast
    then show "placeBet nw d t uid req = (Inl InvalidBetType, d)"
      using h callback_invalid_type[where d=d and uid=uid and nw=nw and a=a and gid=gid and g=g and bt=bt]
      by (simp add: withTransaction_def)
  qed
  have p4: "\<forall>bt a gid g. req_betType req = Some bt \<and> (bt = ''jodi'' \<or> bt = ''haruf'' \<or> bt = ''crossing'') \<and>
        req_gameId req = Some gid \<and> truthy (req_betNumber req) \<and>
        req_betAmount req = Some a \<and> 0 < a \<and> games d gid = Some g \<and> isActive g \<and>
        placeBet_status t g = Open \<and> minBet g \<le> a \<and> a \<le> maxBet g \<and>
        \<not> depositBalance (case wallets d uid of Some w \<Rightarrow> w | None \<Rightarrow> nw) < a \<longrightarrow>
      (\<exists>rc d' b. placeBet nw d t uid req = (Inr rc, d') \<and>
         bets d' = bets d @ [b] \<and> betType b = bt \<and> gameType b = gtype g \<and>
         userId b = uid \<and> gameId b = gid \<and> betAmount b = a \<and> status b = Pending \<and>
         potentialWinning b =
           js_mul a (if bt = ''jodi'' then jodiPayout g
                     else if bt = ''haruf'' then harufPayout g else crossingPayout g))"
  proof (intro allI impI)
    fix bt a gid g
    assume h: "req_betType req = Some bt \<and> (bt = ''jodi'' \<or> bt = ''haruf'' \<or> bt = ''crossing'') \<and>
        req_gameId req = Some gid \<and> truthy (req_betNumber req) \<and>
        req_betAmount req = Some a \<and> 0 < a \<and> games d gid = Some g \<and> isActive g \<and>
        placeBet_status t g = Open \<and> minBet g \<le> a \<and> a \<le> maxBet g \<and>
        \<not> depositBalance (case wallets d uid of Some w \<Rightarrow> w | None \<Rightarrow> nw) < a"
    then have tr: "truthy (req_betType req)" by (auto simp: truthy_def)
    have c: "placeBet nw d t uid req =
        withTransaction
          (placeBet_callback nw uid gid g (the (req_betType req)) (the (req_betNumber req)) a
             (req_betData req)) d"
      using placeBet_checked[where req=req and d=d and t=t and nw=nw and uid=uid and gid=gid and a=a and g=g]
        h tr by blast
    from h have nb: "\<not> depositBalance (case wallets d uid of Some w \<Rightarrow> w | None \<Rightarrow> nw) < a"
      and bt3: "bt = ''jodi'' \<or> bt = ''haruf'' \<or> bt = ''crossing''"
      and bt: "req_betType req = Some bt"
      by simp_all
    from callback_accepts[OF nb bt3, where gid=gid and g=g and bn="the (req_betNumber req)"
           and bd="req_betData req"]
    obtain rc d' b where
      cb: "placeBet_callback nw uid gid g bt (the (req_betNumber req)) a (req_betData req) d =
             Inr (rc, d')" and
      f: "bets d' = bets d @ [b]" "betType b = bt" "gameType b = gtype g" "userId b = uid"
         "gameId b = gid" "betAmount b = a" "status b = Pending"
         "potentialWinning b =
           js_mul a (if bt = ''jodi'' then jodiPayout g
                     else if bt = ''haruf'' then harufPayout g else crossingPayout g)"
      by blast
    have "placeBet nw d t uid req = (Inr rc, d')"
      unfolding c using cb bt by (simp add: withTransaction_def)
    with f show "\<exists>rc d' b. placeBet nw d t uid req = (Inr rc, d') \<and>
         bets d' = bets d @ [b] \<and> betType b = bt \<and> gameType b = gtype g \<and>
         userId b = uid \<and> gameId b = gid \<and> betAmount b = a \<and> status b = Pending \<and>
         potentialWinning b =
           js_mul a (if bt = ''jodi'' then jodiPayout g
                     else if bt = ''haruf'' then harufPayout g else crossingPayout g)"
      by blast
  qed
  have p3: "\<forall>rc d'. placeBet nw d t uid req = (Inr rc, d') \<longrightarrow>
      (\<exists>gid g a b. req_gameId req = Some gid \<and> games d gid = Some g \<and> req_betAmount req = Some a \<and>
         bets d' = bets d @ [b] \<and> req_betType req = Some (betType b) \<and> gameType b = gtype g \<and>
         status b = Pending \<and> betAmount b = a \<and>
         (betType b = ''jodi'' \<and> potentialWinning b = js_mul a (jodiPayout g) \<or>
          betType b = ''haruf'' \<and> potentialWinning b = js_mul a (harufPayout g) \<or>
          betType b = ''crossing'' \<and> potentialWinning b = js_mul a (crossingPayout g)))"
  proof (intro allI impI)
    fix rc d'
    assume run: "placeBet nw d t uid req = (Inr rc, d')"
    with placeBet_cases[of nw d t uid req] obtain gid a g where
      h: "req_gameId req = Some gid" "truthy (req_betType req)" "req_betAmount req = Some a"
         "games d gid = Some g" and
      c: "placeBet nw d t uid req =
        withTransaction
          (placeBet_callback nw uid gid g (the (req_betType req)) (the (req_betNumber req)) a
             (req_betData req)) d"
      by auto
    from run c have cb: "placeBet_callback nw uid gid g (the (req_betType req))
        (the (req_betNumber req)) a (req_betData req) d = Inr (rc, d')"
      by (auto simp: withTransaction_def split: sum.splits)
    from h(2) obtain bt where bt: "req_betType req = Some bt"
      by (cases "req_betType req") (auto simp: truthy_def)
    from callback_success[OF cb] bt h
    show "\<exists>gid g a b. req_gameId req = Some gid \<and> games d gid = Some g \<and> req_betAmount req = Some a \<and>
         bets d' = bets d @ [b] \<and> req_betType req = Some (betType b) \<and> gameType b = gtype g \<and>
         status b = Pending \<and> betAmount b = a \<and>
         (betType b = ''jodi'' \<and> potentialWinning b = js_mul a (jodiPayout g) \<or>
          betType b = ''haruf'' \<and> potentialWinning b = js_mul a (harufPayout g) \<or>
          betType b = ''crossing'' \<and> potentialWinning b = js_mul a (crossingPayout g))"
      by auto
  qed
  from p1 p2 p4 p3 show ?thesis by blast
qed

lemma haruf_on_jodi_run:
  "placeBet exWallet jodiDb ''12:00'' 7 exRequest =
     (Inr \<lparr>rc_betId = 11, rc_potentialWinning = 450, rc_currentBalance = 50, rc_transactionId = 10\<rparr>,
      jodiDb\<lparr>transactions := [\<lparr>txn_id = 10, txn_userId = 7, txn_type = ''bet'', txn_amount = 50,
                                txn_gameId = 3\<rparr>],
             bets := [\<lparr>bet_id = 11, userId = 7, gameId = 3, gameType = Jodi,
                       betType = ''haruf'', betNumber = ''4'', betAmount = 50,
                       potentialWinning = 450,
                       betData = \<lparr>harufPosition = Some ''first'', harufDigit = Some ''4''\<rparr>,
                       status = Pending, deductionTransactionId = 10,
                       isWinner = None, winningAmount = None, actualPayout = None,
                       winningTransactionId = None, isWinning = None, resultDeclared = False,
                       bet_declaredResult = None, top_harufPosition = None,
                       crossingCombinations = None\<rparr>],
             nextId := 12,
             wallets := [7 \<mapsto> exWallet\<lparr>depositBalance := 50, totalBets := 50\<rparr>]\<rparr>)"
proof -
  have g: "games jodiDb 3 = Some exGame" by (simp add: jodiDb_def)
  show ?thesis
    by (simp add: placeBet_def exRequest_def g exGame_open_at_noon truthy_def)
       (simp add: exGame_def withTransaction_def placeBet_callback_def jodiDb_def exDb_def
          exWallet_def Let_def js_values)
qed

theorem placeBet_bet_type_witness:
  "placeBet exWallet jodiDb ''12:00'' 7 (exRequest\<lparr>req_betType := Some ''lottery''\<rparr>) =
     (Inl InvalidBetType, jodiDb) \<and>
   map_option gtype (games jodiDb 3) = Some Jodi \<and>
   (\<exists>rc d' b. placeBet exWallet jodiDb ''12:00'' 7 exRequest = (Inr rc, d') \<and>
        bets d' = bets jodiDb @ [b] \<and>
        betType b = ''haruf'' \<and> gameType b = Jodi \<and> potentialWinning b = js_mul 50 9)"
proof -
  have g: "games jodiDb 3 = Some exGame" by (simp add: jodiDb_def)
  have w: "wallets jodiDb 7 = Some exWallet" by (simp add: jodiDb_def exDb_def)
  have r: "minBet exGame = 10" "maxBet exGame = 10000" "isActive exGame" "gtype exGame = Jodi"
    "harufPayout exGame = 9"
    by (simp_all add: exGame_def)
  have b: "depositBalance exWallet = 100" by (simp add: exWallet_def)
  from placeBet_bet_type[of "exRequest\<lparr>req_betType := Some ''lottery''\<rparr>" exWallet jodiDb "''12:00''" 7]
  have a: "placeBet exWallet jodiDb ''12:00'' 7 (exRequest\<lparr>req_betType := Some ''lottery''\<rparr>) =
     (Inl InvalidBetType, jodiDb)"
    by (simp add: exRequest_def g w r b exGame_open_at_noon truthy_def)
  have h: "req_betType exRequest = Some ''haruf'' \<and>
        (''haruf'' = ''jodi'' \<or> ''haruf'' = ''haruf'' \<or> ''haruf'' = ''crossing'') \<and>
        req_gameId exRequest = Some 3 \<and> truthy (req_betNumber exRequest) \<and>
        req_betAmount exRequest = Some 50 \<and> (0::real) < 50 \<and> games jodiDb 3 = Some exGame \<and>
        isActive exGame \<and> placeBet_status ''12:00'' exGame = Open \<and> minBet exGame \<le> 50 \<and>
        50 \<le> maxBet exGame \<and>
        \<not> depositBalance (case wallets jodiDb 7 of Some w \<Rightarrow> w | None \<Rightarrow> exWallet) < 50"
    by (simp add: exRequest_def g w r b exGame_open_at_noon truthy_def)
  from placeBet_bet_type[of exRequest exWallet jodiDb "''12:00''" 7]
  have "\<forall>bt a gid g. req_betType exRequest = Some bt \<and>
        (bt = ''jodi'' \<or> bt = ''haruf'' \<or> bt = ''crossing'') \<and>
        req_gameId exRequest = Some gid \<and> truthy (req_betNumber exRequest) \<and>
        req_betAmount exRequest = Some a \<and> 0 < a \<and> games jodiDb gid = Some g \<and> isActive g \<and>
        placeBet_status ''12:00'' g = Open \<and> minBet g \<le> a \<and> a \<le> maxBet g \<and>
        \<not> depositBalance (case wallets jodiDb 7 of Some w \<Rightarrow> w | None \<Rightarrow> exWallet) < a \<longrightarrow>
      (\<exists>rc d' b. placeBet exWallet jodiDb ''12:00'' 7 exRequest = (Inr rc, d') \<and>
         bets d' = bets jodiDb @ [b] \<and> betType b = bt \<and> gameType b = gtype g \<and>
         userId b = 7 \<and> gameId b = gid \<and> betAmount b = a \<and> status b = Pending \<and>
         potentialWinning b =
           js_mul a (if bt = ''jodi'' then jodiPayout g
                     else if bt = ''haruf'' then harufPayout g else crossingPayout g))"
    by blast
  from this[rule_format, OF h]
  have "\<exists>rc d' b. placeBet exWallet jodiDb ''12:00'' 7 exRequest = (Inr rc, d') \<and>
        bets d' = bets jodiDb @ [b] \<and>
        betType b = ''haruf'' \<and> gameType b = Jodi \<and> potentialWinning b = js_mul 50 9"
    using r by auto
  with a g r show ?thesis by simp
qed


text \<open>
  A haruf bet on a jodi game is accepted: the bet is stored with betType haruf and
  gameType jodi.
\<close>

theorem haruf_bet_on_jodi_game_counterexample:
  "map_option gtype (games jodiDb 3) = Some Jodi \<and>
   req_betType exRequest = Some ''haruf'' \<and>
   fst (placeBet exWallet jodiDb ''12:00'' 7 exRequest) =
     Inr \<lparr>rc_betId = 11, rc_potentialWinning = 450, rc_currentBalance = 50, rc_transactionId = 10\<rparr> \<and>
   map betType (bets (snd (placeBet exWallet jodiDb ''12:00'' 7 exRequest))) = [''haruf''] \<and>
   map gameType (bets (snd (placeBet exWallet jodiDb ''12:00'' 7 exRequest))) = [Jodi] \<and>
   bets jodiDb = []"
  unfolding haruf_on_jodi_run
  by (simp add: jodiDb_def exGame_def exRequest_def)

end
